theory Spec2Isabelle
  imports Complex_Main "HOL-Library.Word" "HOL-Library.Multiset"
begin

section \<open>NanoHash Invoice: a model of \<^verbatim>\<open>script.js\<close>\<close>

text \<open>
  The script keeps three globals (\<^verbatim>\<open>items\<close>, \<^verbatim>\<open>invoiceNumber\<close>, \<^verbatim>\<open>invoiceHistory\<close>),
  two properties of \<^verbatim>\<open>window\<close> (the hash and timestamp last computed), reads four
  form fields and writes two keys of \<^verbatim>\<open>localStorage\<close>. The model threads all of it
  through one record. Conventions:

  \<^item> A JavaScript number is an IEEE 754 double. A finite double is held as the real it
    denotes, and every addition, multiplication and division of the script is the exact
    operation followed by rounding to the nearest double, ties to even (\<open>rnd\<close> below).
    A computed amount is an \<open>amount\<close>: a finite double, an infinity (a result of
    magnitude \<open>2 ^ 1024\<close> or more) or \<^verbatim>\<open>NaN\<close>. A parsed form field is a \<open>number\<close>: a
    finite double or \<^verbatim>\<open>NaN\<close>; the texts that parse to an infinity are outside the
    model. The two zeros are one.
  \<^item> Arrays of line items live in an explicit store addressed by references, because
    \<^verbatim>\<open>regenerateInvoice\<close> shares one array between the history and the live list and
    \<^verbatim>\<open>push\<close> mutates in place. The history array itself has a single owner and is a list.
  \<^item> An exception that escapes an event handler ends that handler only: the page goes on
    with the globals as they were at the throw. Every handler therefore returns the new
    state together with the error that escaped, if any.
  \<^item> Platform functions are inputs: \<^verbatim>\<open>parseFloat\<close> is applied by the caller (a numeric
    form field is held as its parsed value), \<^verbatim>\<open>JSON.stringify\<close> of the block and the
    SHA-256 digest of \<^verbatim>\<open>crypto.subtle\<close> are fields of a \<open>platform\<close> record, and the clock
    readings are fields of a \<open>clock\<close> record.
  \<^item> Drawing (table rows, the PDF pages, the QR image, the theme) is not modelled.
\<close>

subsection \<open>Values\<close>

type_synonym ref = nat
type_synonym byte = "8 word"

datatype number = NaN | Num real

datatype amount = Finite real | PosInfinity | NegInfinity | NotANumber

datatype error = TypeError | SyntaxError

text \<open>A line of the hashed block is \<^verbatim>\<open>{name, quantity, price}\<close>; a stored item adds \<^verbatim>\<open>id\<close>.\<close>

record line =
  name :: string
  quantity :: real
  price :: real

record item = line +
  item_id :: int

record totals =
  subtotal :: amount
  tax :: amount
  total :: amount
  convertedTotal :: amount
  currency :: string
  taxRate :: real

record invoiceData =
  in_invoiceNumber :: int
  in_clientName :: string
  in_total :: amount
  in_items :: "item list"

record blockData =
  bd_invoiceNumber :: int
  bd_clientName :: string
  bd_total :: amount
  bd_timestamp :: string
  bd_items :: "line list"

record block =
  hash :: string
  timestamp :: string
  data :: blockData

text \<open>
  A history record. In memory its \<^verbatim>\<open>items\<close> field is a reference to an array
  (\<open>'a = ref\<close>); in the persisted JSON text the array is written out (\<open>'a = item list\<close>).
\<close>

record 'a invoice =
  rec_invoiceNumber :: int
  rec_clientName :: string
  rec_fiscalField :: string
  rec_total :: amount
  rec_currency :: string
  rec_convertedTotal :: amount
  rec_date :: string
  rec_hash :: "string option"
  rec_timestamp :: "string option"
  rec_items :: 'a

definition with_items :: "'b \<Rightarrow> 'a invoice \<Rightarrow> 'b invoice" where
  "with_items xs r =
     \<lparr>rec_invoiceNumber = rec_invoiceNumber r, rec_clientName = rec_clientName r,
      rec_fiscalField = rec_fiscalField r, rec_total = rec_total r,
      rec_currency = rec_currency r, rec_convertedTotal = rec_convertedTotal r,
      rec_date = rec_date r, rec_hash = rec_hash r, rec_timestamp = rec_timestamp r,
      rec_items = xs\<rparr>"

text \<open>
  The value under the key \<^verbatim>\<open>invoiceHistory\<close>: either a text that \<^verbatim>\<open>JSON.parse\<close> accepts,
  held as the history it denotes (what \<^verbatim>\<open>JSON.stringify(invoiceHistory)\<close> wrote), or a
  text that \<^verbatim>\<open>JSON.parse\<close> rejects with a \<^verbatim>\<open>SyntaxError\<close>. A text that parses to
  something other than a history is outside the model. The value under
  \<^verbatim>\<open>invoiceNumber\<close> is held as the integer that \<^verbatim>\<open>parseInt\<close> reads back.
\<close>

datatype persisted = Json "item list invoice list" | Garbage string

record storage =
  ls_invoiceNumber :: "int option"
  ls_invoiceHistory :: "persisted option"

text \<open>
  The fields the script reads. \<open>taxRateField\<close>, \<open>itemQuantity\<close> and \<open>itemPrice\<close> hold
  \<^verbatim>\<open>parseFloat\<close> of the field's text; the other fields hold the text.
\<close>

record inputs =
  clientNameField :: string
  fiscalFieldField :: string
  taxRateField :: number
  currencyField :: string

record form =
  itemName :: string
  itemQuantity :: number
  itemPrice :: number

record session =
  heap :: "ref \<Rightarrow> item list"
  fresh :: ref
  items :: ref
  invoiceNumber :: int
  invoiceHistory :: "ref invoice list"
  currentInvoiceHash :: "string option"
  currentInvoiceTimestamp :: "string option"
  dom :: inputs
  localStorage :: storage

record platform =
  JSON_stringify :: "blockData \<Rightarrow> string"
  subtle_digest :: "(byte list \<Rightarrow> byte list) option"

record clock =
  now :: int
  iso :: string
  localeDate :: string

text \<open>A new array: \<^verbatim>\<open>[]\<close>, \<^verbatim>\<open>filter\<close>, \<^verbatim>\<open>JSON.parse\<close> each allocate one.\<close>

definition alloc :: "item list \<Rightarrow> session \<Rightarrow> ref \<times> session" where
  "alloc xs s = (fresh s, s\<lparr>heap := (heap s)(fresh s := xs), fresh := Suc (fresh s)\<rparr>)"

subsection \<open>Double arithmetic\<close>

text \<open>
  \<open>round_even y\<close> is the integer nearest to \<open>y\<close>, the even one of the two when \<open>y\<close> lies
  halfway. \<open>binade n y\<close> is, for \<open>y > 0\<close>, the exponent \<open>e\<close> with \<open>2 ^ e \<le> y < 2 ^ (e + 1)\<close>,
  found by halving or doubling \<open>y\<close>; \<open>n\<close> bounds the number of steps, and 1100 steps reach
  every double.

  \<open>rnd x\<close> is \<open>x\<close> rounded to 53 significant bits: in the binade \<open>e\<close> the doubles are the
  multiples of \<open>2 ^ (e - 52)\<close>; below \<open>2 ^ (- 1022)\<close> they are subnormal and stay the
  multiples of \<open>2 ^ (- 1074)\<close>. A rounded result of magnitude \<open>2 ^ 1024\<close> or more is not a
  double: the operation overflows to an infinity.
\<close>

definition round_even :: "real \<Rightarrow> int" where
  "round_even y =
     (let f = \<lfloor>y\<rfloor>; d = y - of_int f
      in if d < 1 / 2 then f else if 1 / 2 < d then f + 1 else if even f then f else f + 1)"

fun binade :: "nat \<Rightarrow> real \<Rightarrow> int" where
  "binade 0 y = 0"
| "binade (Suc n) y =
     (if 2 \<le> y then binade n (y / 2) + 1 else if y < 1 then binade n (y * 2) - 1 else 0)"

definition rnd :: "real \<Rightarrow> real" where
  "rnd x =
     (if x = 0 then 0
      else let e = max (binade 1100 \<bar>x\<bar>) (- 1022); q = 2 powi (e - 52)
           in of_int (round_even (x / q)) * q)"

definition overflow :: "real \<Rightarrow> amount" where
  "overflow r =
     (if 2 ^ 1024 \<le> r then PosInfinity else if r \<le> - (2 ^ 1024) then NegInfinity else Finite r)"

text \<open>
  The script's \<^verbatim>\<open>+\<close> and \<^verbatim>\<open>*\<close> on amounts. \<^verbatim>\<open>NaN\<close> is absorbing; the sum of the two
  infinities and the product of an infinity and zero are \<^verbatim>\<open>NaN\<close>.
\<close>

fun fadd :: "amount \<Rightarrow> amount \<Rightarrow> amount" where
  "fadd (Finite x) (Finite y) = overflow (rnd (x + y))"
| "fadd NotANumber b = NotANumber"
| "fadd a NotANumber = NotANumber"
| "fadd PosInfinity NegInfinity = NotANumber"
| "fadd NegInfinity PosInfinity = NotANumber"
| "fadd PosInfinity b = PosInfinity"
| "fadd NegInfinity b = NegInfinity"
| "fadd (Finite x) b = b"

definition scaled_infinity :: "amount \<Rightarrow> real \<Rightarrow> amount" where
  "scaled_infinity a x =
     (if x = 0 then NotANumber
      else if 0 < x then a
      else if a = PosInfinity then NegInfinity else PosInfinity)"

fun fmul :: "amount \<Rightarrow> amount \<Rightarrow> amount" where
  "fmul (Finite x) (Finite y) = overflow (rnd (x * y))"
| "fmul NotANumber b = NotANumber"
| "fmul a NotANumber = NotANumber"
| "fmul (Finite x) b = scaled_infinity b x"
| "fmul a (Finite y) = scaled_infinity a y"
| "fmul a b = (if a = b then PosInfinity else NegInfinity)"

text \<open>The literals \<^verbatim>\<open>0.92\<close> and \<^verbatim>\<open>6.91\<close> denote the doubles nearest to them.\<close>

definition exchangeRates :: "string \<rightharpoonup> real" where
  "exchangeRates = [''USD'' \<mapsto> 1, ''EUR'' \<mapsto> rnd 0.92, ''BOB'' \<mapsto> rnd 6.91]"

subsection \<open>Hashing\<close>

definition hex_digit :: "nat \<Rightarrow> char" where
  "hex_digit n = ''0123456789abcdef'' ! n"

fun toString16 :: "nat \<Rightarrow> string" where
  "toString16 n = (if n < 16 then [hex_digit n] else toString16 (n div 16) @ [hex_digit (n mod 16)])"

declare toString16.simps [simp del]

definition padStart :: "nat \<Rightarrow> char \<Rightarrow> string \<Rightarrow> string" where
  "padStart n c s = replicate (n - length s) c @ s"

text \<open>\<^verbatim>\<open>TextEncoder.encode\<close>: a \<open>string\<close> is already a sequence of 8-bit characters.\<close>

definition encode :: "string \<Rightarrow> byte list" where
  "encode s = map (\<lambda>c. word_of_nat (of_char c)) s"

text \<open>
  \<^verbatim>\<open>generateHash\<close>: with \<^verbatim>\<open>crypto.subtle\<close> undefined the call \<^verbatim>\<open>crypto.subtle.digest\<close>
  throws a \<^verbatim>\<open>TypeError\<close>. The promise is modelled as resolved at once.
\<close>

definition generateHash :: "platform \<Rightarrow> blockData \<Rightarrow> error + string" where
  "generateHash pf message =
     (let msgBuffer = encode (JSON_stringify pf message) in
      case subtle_digest pf of
        None \<Rightarrow> Inl TypeError
      | Some digest \<Rightarrow>
          (let hashArray = digest msgBuffer;
               hashHex = concat (map (\<lambda>b. padStart 2 (CHR ''0'') (toString16 (unat b))) hashArray)
           in Inr hashHex))"

definition blockDataOf :: "string \<Rightarrow> invoiceData \<Rightarrow> blockData" where
  "blockDataOf ts invoiceData =
     \<lparr>bd_invoiceNumber = in_invoiceNumber invoiceData,
      bd_clientName = in_clientName invoiceData,
      bd_total = in_total invoiceData,
      bd_timestamp = ts,
      bd_items = map (\<lambda>item. \<lparr>name = name item, quantity = quantity item, price = price item\<rparr>)
                     (in_items invoiceData)\<rparr>"

definition generateBlockchainData :: "platform \<Rightarrow> clock \<Rightarrow> invoiceData \<Rightarrow> error + block" where
  "generateBlockchainData pf clk invoiceData =
     (let timestamp = iso clk;
          blockData = blockDataOf timestamp invoiceData
      in case generateHash pf blockData of
           Inl e \<Rightarrow> Inl e
         | Inr h \<Rightarrow> Inr \<lparr>hash = h, timestamp = timestamp, data = blockData\<rparr>)"

subsection \<open>Items\<close>

text \<open>\<^verbatim>\<open>trim\<close>, for the white space of ASCII.\<close>

definition is_space :: "char \<Rightarrow> bool" where
  "is_space c = (c \<in> set [CHR '' '', CHR 0x09, CHR 0x0A, CHR 0x0B, CHR 0x0C, CHR 0x0D])"

definition trim :: "string \<Rightarrow> string" where
  "trim s = rev (dropWhile is_space (rev (dropWhile is_space s)))"

text \<open>\<^verbatim>\<open>!x\<close> on a number: \<^verbatim>\<open>NaN\<close> and \<^verbatim>\<open>0\<close> are falsy.\<close>

definition falsy :: "number \<Rightarrow> bool" where
  "falsy x = (case x of NaN \<Rightarrow> True | Num r \<Rightarrow> r = 0)"

definition le_zero :: "number \<Rightarrow> bool" where
  "le_zero x = (case x of NaN \<Rightarrow> False | Num r \<Rightarrow> r \<le> 0)"

definition validateItem :: "form \<Rightarrow> bool" where
  "validateItem f =
     (let name = trim (itemName f);
          quantity = itemQuantity f;
          price = itemPrice f;
          isValid = True;
          isValid = (if name = [] then False else isValid);
          isValid = (if falsy quantity \<or> le_zero quantity then False else isValid);
          isValid = (if falsy price \<or> le_zero price then False else isValid)
      in isValid)"

subsection \<open>Calculation\<close>

text \<open>
  \<^verbatim>\<open>parseFloat(taxRateInput) || 13\<close>, the two clamps, then the division by 100. The
  clamped rate lies in \<open>[0, 100]\<close>, so the quotient is a finite double.
\<close>

definition getTaxRate :: "session \<Rightarrow> real" where
  "getTaxRate s =
     (let taxRate = (case taxRateField (dom s) of
                       NaN \<Rightarrow> 13
                     | Num x \<Rightarrow> if x = 0 then 13 else x);
          taxRate = (if taxRate < 0 then 0 else taxRate);
          taxRate = (if taxRate > 100 then 100 else taxRate)
      in rnd (taxRate / 100))"

text \<open>
  \<^verbatim>\<open>calculateTotals\<close>: the \<^verbatim>\<open>reduce\<close> adds the products from the left, starting at 0.
  In \<^verbatim>\<open>total * exchangeRates[currency]\<close> a missing key reads \<^verbatim>\<open>undefined\<close> and the product
  is \<^verbatim>\<open>NaN\<close>. The rate returned, \<^verbatim>\<open>taxRate * 100\<close>, is a finite double. The function
  assigns to no global and no field: it returns the totals and the state as it found it.
\<close>

definition calculateTotals :: "session \<Rightarrow> totals \<times> session" where
  "calculateTotals s =
     (let subtotal = foldl (\<lambda>sum item. fadd sum (fmul (Finite (quantity item)) (Finite (price item))))
                       (Finite 0) (heap s (items s));
          taxRate = getTaxRate s;
          tax = fmul subtotal (Finite taxRate);
          total = fadd subtotal tax;
          currency = currencyField (dom s);
          convertedTotal = (case exchangeRates currency of
                              None \<Rightarrow> NotANumber
                            | Some rate \<Rightarrow> fmul total (Finite rate))
      in (\<lparr>subtotal = subtotal, tax = tax, total = total, convertedTotal = convertedTotal,
           currency = currency, taxRate = rnd (taxRate * 100)\<rparr>, s))"

subsection \<open>Display\<close>

text \<open>\<^verbatim>\<open>value || 'General Client'\<close>: the empty string is falsy.\<close>

definition clientNameOr :: "session \<Rightarrow> string" where
  "clientNameOr s = (if clientNameField (dom s) = [] then ''General Client'' else clientNameField (dom s))"

text \<open>
  \<^verbatim>\<open>updateDisplay\<close>: returns early on an empty list; otherwise hashes the current invoice
  and stores hash and timestamp on \<^verbatim>\<open>window\<close>. When hashing throws, nothing is stored.
\<close>

definition updateDisplay :: "platform \<Rightarrow> clock \<Rightarrow> session \<Rightarrow> session \<times> error option" where
  "updateDisplay pf clk s =
     (if length (heap s (items s)) = 0 then (s, None)
      else
        let (totals, s0) = calculateTotals s;
            invoiceData = \<lparr>in_invoiceNumber = invoiceNumber s0, in_clientName = clientNameOr s0,
                           in_total = total totals, in_items = heap s0 (items s0)\<rparr>
        in case generateBlockchainData pf clk invoiceData of
             Inl e \<Rightarrow> (s0, Some e)
           | Inr blockData \<Rightarrow>
               (s0\<lparr>currentInvoiceHash := Some (hash blockData),
                   currentInvoiceTimestamp := Some (timestamp blockData)\<rparr>, None))"

text \<open>
  \<^verbatim>\<open>addItem\<close>: \<^verbatim>\<open>items.push(item)\<close> writes into the array \<^verbatim>\<open>items\<close> refers to. A field
  that passed \<^verbatim>\<open>validateItem\<close> is a number, so the \<^verbatim>\<open>NaN\<close> branches are never taken.
\<close>

definition addItem :: "platform \<Rightarrow> clock \<Rightarrow> form \<Rightarrow> session \<Rightarrow> session \<times> error option" where
  "addItem pf clk f s =
     (if \<not> validateItem f then (s, None)
      else case (itemQuantity f, itemPrice f) of
        (Num q, Num p) \<Rightarrow>
          (let item = \<lparr>name = trim (itemName f), quantity = q, price = p, item_id = now clk\<rparr>;
               s1 = s\<lparr>heap := (heap s)(items s := heap s (items s) @ [item])\<rparr>
           in updateDisplay pf clk s1)
      | _ \<Rightarrow> (s, None))"

text \<open>\<^verbatim>\<open>removeItem\<close>: \<^verbatim>\<open>filter\<close> builds a new array and \<^verbatim>\<open>items\<close> is pointed at it.\<close>

definition removeItem :: "platform \<Rightarrow> clock \<Rightarrow> int \<Rightarrow> session \<Rightarrow> session \<times> error option" where
  "removeItem pf clk i s =
     (let (r, s1) = alloc (filter (\<lambda>item. item_id item \<noteq> i) (heap s (items s))) s;
          s2 = s1\<lparr>items := r\<rparr>
      in updateDisplay pf clk s2)"

subsection \<open>History\<close>

definition stringify_history :: "session \<Rightarrow> persisted" where
  "stringify_history s = Json (map (\<lambda>r. with_items (heap s (rec_items r)) r) (invoiceHistory s))"

definition saveToHistory :: "ref invoice \<Rightarrow> session \<Rightarrow> session" where
  "saveToHistory invoiceData s =
     (let s1 = s\<lparr>invoiceHistory := invoiceData # invoiceHistory s\<rparr>;
          s2 = (if length (invoiceHistory s1) > 50
                then s1\<lparr>invoiceHistory := take 50 (invoiceHistory s1)\<rparr> else s1)
      in s2\<lparr>localStorage := (localStorage s2)\<lparr>ls_invoiceHistory := Some (stringify_history s2)\<rparr>\<rparr>)"

text \<open>
  \<^verbatim>\<open>generatePDF\<close>: the record takes \<^verbatim>\<open>window.currentInvoiceHash\<close> as it is (possibly
  undefined; the page then prints \<^verbatim>\<open>N/A\<close>) and a deep copy of the items; then the counter
  is incremented and persisted, and \<^verbatim>\<open>items\<close> is pointed at a new empty array.
\<close>

definition generatePDF :: "platform \<Rightarrow> clock \<Rightarrow> session \<Rightarrow> session \<times> error option" where
  "generatePDF pf clk s =
     (let clientName = clientNameOr s;
          fiscalField = fiscalFieldField (dom s);
          (totals, s0) = calculateTotals s;
          currentDate = localeDate clk;
          (copy, s1) = alloc (heap s0 (items s0)) s0;
          s2 = saveToHistory
                 \<lparr>rec_invoiceNumber = invoiceNumber s1, rec_clientName = clientName,
                  rec_fiscalField = fiscalField, rec_total = total totals,
                  rec_currency = currency totals, rec_convertedTotal = convertedTotal totals,
                  rec_date = currentDate, rec_hash = currentInvoiceHash s1,
                  rec_timestamp = currentInvoiceTimestamp s1, rec_items = copy\<rparr> s1;
          s3 = s2\<lparr>invoiceNumber := invoiceNumber s2 + 1\<rparr>;
          s4 = s3\<lparr>localStorage := (localStorage s3)\<lparr>ls_invoiceNumber := Some (invoiceNumber s3)\<rparr>\<rparr>;
          (empty, s5) = alloc [] s4;
          s6 = s5\<lparr>items := empty\<rparr>
      in updateDisplay pf clk s6)"

text \<open>\<^verbatim>\<open>deleteInvoice\<close>: \<^verbatim>\<open>splice(index, 1)\<close> after the user confirmed.\<close>

definition deleteInvoice :: "nat \<Rightarrow> bool \<Rightarrow> session \<Rightarrow> session \<times> error option" where
  "deleteInvoice index confirmed s =
     (if confirmed then
        let s1 = s\<lparr>invoiceHistory := take index (invoiceHistory s) @ drop (Suc index) (invoiceHistory s)\<rparr>
        in (s1\<lparr>localStorage := (localStorage s1)\<lparr>ls_invoiceHistory := Some (stringify_history s1)\<rparr>\<rparr>, None)
      else (s, None))"

text \<open>
  \<^verbatim>\<open>regenerateInvoice\<close>: \<^verbatim>\<open>items = invoice.items\<close> copies the reference, not the array.
  An index past the end reads \<^verbatim>\<open>undefined\<close> and \<^verbatim>\<open>invoice.items\<close> throws.
\<close>

definition regenerateInvoice :: "platform \<Rightarrow> clock \<Rightarrow> nat \<Rightarrow> session \<Rightarrow> session \<times> error option" where
  "regenerateInvoice pf clk index s =
     (if index < length (invoiceHistory s) then
        let invoice = invoiceHistory s ! index;
            s1 = s\<lparr>items := rec_items invoice\<rparr>;
            s2 = s1\<lparr>invoiceNumber := rec_invoiceNumber invoice\<rparr>;
            s3 = s2\<lparr>dom := (dom s2)\<lparr>clientNameField := rec_clientName invoice,
                                    fiscalFieldField := rec_fiscalField invoice\<rparr>\<rparr>
        in updateDisplay pf clk s3
      else (s, Some TypeError))"

subsection \<open>Start of a session\<close>

text \<open>The top-level initialisers of the script, over the page's fields and the storage.\<close>

definition globals :: "inputs \<Rightarrow> storage \<Rightarrow> session" where
  "globals d st =
     \<lparr>heap = (\<lambda>_. []), fresh = 1, items = 0, invoiceNumber = 1001, invoiceHistory = [],
      currentInvoiceHash = None, currentInvoiceTimestamp = None, dom = d, localStorage = st\<rparr>"

text \<open>\<^verbatim>\<open>JSON.parse\<close> of an accepted text builds every record's array anew.\<close>

fun materialize :: "item list invoice list \<Rightarrow> session \<Rightarrow> ref invoice list \<times> session" where
  "materialize [] s = ([], s)"
| "materialize (r # rs) s =
     (let (a, s1) = alloc (rec_items r) s;
          (rs', s2) = materialize rs s1
      in (with_items a r # rs', s2))"

text \<open>
  The \<^verbatim>\<open>DOMContentLoaded\<close> listener: the counter is restored when the key is present, then
  the history; \<^verbatim>\<open>if (savedHistory)\<close> skips an absent key and the empty text. There is no
  \<^verbatim>\<open>try\<close> around \<^verbatim>\<open>JSON.parse\<close>.
\<close>

definition DOMContentLoaded :: "session \<Rightarrow> session \<times> error option" where
  "DOMContentLoaded s =
     (let s1 = (case ls_invoiceNumber (localStorage s) of
                  None \<Rightarrow> s
                | Some n \<Rightarrow> s\<lparr>invoiceNumber := n\<rparr>)
      in case ls_invoiceHistory (localStorage s1) of
           None \<Rightarrow> (s1, None)
         | Some (Garbage savedHistory) \<Rightarrow>
             if savedHistory = [] then (s1, None) else (s1, Some SyntaxError)
         | Some (Json v) \<Rightarrow>
             (let (h, s2) = materialize v s1 in (s2\<lparr>invoiceHistory := h\<rparr>, None)))"

subsection \<open>Sessions as sequences of events\<close>

datatype action =
    AddItem form
  | RemoveItem int
  | GeneratePDF
  | DeleteInvoice nat bool
  | RegenerateInvoice nat
  | InputTaxRate number
  | ChangeCurrency string
  | InputClientName string
  | InputFiscalField string

text \<open>
  The two fields with a listener (\<^verbatim>\<open>currency\<close>, \<^verbatim>\<open>taxRate\<close>) refresh the display; the
  others only change the field.
\<close>

fun step :: "platform \<Rightarrow> clock \<Rightarrow> action \<Rightarrow> session \<Rightarrow> session \<times> error option" where
  "step pf clk (AddItem f) s = addItem pf clk f s"
| "step pf clk (RemoveItem i) s = removeItem pf clk i s"
| "step pf clk GeneratePDF s = generatePDF pf clk s"
| "step pf clk (DeleteInvoice index confirmed) s = deleteInvoice index confirmed s"
| "step pf clk (RegenerateInvoice index) s = regenerateInvoice pf clk index s"
| "step pf clk (InputTaxRate x) s = updateDisplay pf clk (s\<lparr>dom := (dom s)\<lparr>taxRateField := x\<rparr>\<rparr>)"
| "step pf clk (ChangeCurrency c) s = updateDisplay pf clk (s\<lparr>dom := (dom s)\<lparr>currencyField := c\<rparr>\<rparr>)"
| "step pf clk (InputClientName c) s = (s\<lparr>dom := (dom s)\<lparr>clientNameField := c\<rparr>\<rparr>, None)"
| "step pf clk (InputFiscalField c) s = (s\<lparr>dom := (dom s)\<lparr>fiscalFieldField := c\<rparr>\<rparr>, None)"

fun run :: "platform \<Rightarrow> (clock \<times> action) list \<Rightarrow> session \<Rightarrow> session" where
  "run pf [] s = s"
| "run pf ((clk, a) # as) s = run pf as (fst (step pf clk a s))"

text \<open>The record that \<^verbatim>\<open>generatePDF\<close> passes to \<^verbatim>\<open>saveToHistory\<close> in state \<open>s\<close>.\<close>

definition finalized :: "clock \<Rightarrow> session \<Rightarrow> ref invoice" where
  "finalized clk s =
     \<lparr>rec_invoiceNumber = invoiceNumber s, rec_clientName = clientNameOr s,
      rec_fiscalField = fiscalFieldField (dom s), rec_total = total (fst (calculateTotals s)),
      rec_currency = currency (fst (calculateTotals s)),
      rec_convertedTotal = convertedTotal (fst (calculateTotals s)),
      rec_date = localeDate clk, rec_hash = currentInvoiceHash s,
      rec_timestamp = currentInvoiceTimestamp s, rec_items = fresh s\<rparr>"

subsection \<open>What is hashed\<close>

text \<open>The text and the bytes that \<^verbatim>\<open>generateHash\<close> passes to the digest for a block.\<close>

definition hashed_text :: "platform \<Rightarrow> string \<Rightarrow> invoiceData \<Rightarrow> string" where
  "hashed_text pf ts invoiceData = JSON_stringify pf (blockDataOf ts invoiceData)"

definition hashed_bytes :: "platform \<Rightarrow> string \<Rightarrow> invoiceData \<Rightarrow> byte list" where
  "hashed_bytes pf ts invoiceData = encode (hashed_text pf ts invoiceData)"

text \<open>Two item lists that agree line by line in name, quantity and price.\<close>

definition differ_only_in_ids :: "item list \<Rightarrow> item list \<Rightarrow> bool" where
  "differ_only_in_ids xs ys =
     list_all2 (\<lambda>x y. name x = name y \<and> quantity x = quantity y \<and> price x = price y) xs ys"

text \<open>
  A storage whose history text, if it parses, holds at most 50 records; a session whose
  history holds at most 50 records over such a storage.
\<close>

definition stored_ok :: "storage \<Rightarrow> bool" where
  "stored_ok st = (case ls_invoiceHistory st of Some (Json v) \<Rightarrow> length v \<le> 50 | _ \<Rightarrow> True)"

definition ledger_ok :: "session \<Rightarrow> bool" where
  "ledger_ok s = (length (invoiceHistory s) \<le> 50 \<and> stored_ok (localStorage s))"

text \<open>
  \<open>representable x\<close>: \<open>x\<close> is a double. \<open>exact_steps acc xs\<close>: no step of the accumulation
  over \<open>xs\<close>, started at \<open>acc\<close>, rounds: every product and every partial sum is a double.
\<close>

definition representable :: "real \<Rightarrow> bool" where
  "representable x = (rnd x = x \<and> \<bar>x\<bar> < 2 ^ 1024)"

fun exact_steps :: "real \<Rightarrow> item list \<Rightarrow> bool" where
  "exact_steps acc [] = True"
| "exact_steps acc (item # rest) =
     (representable (quantity item * price item)
      \<and> representable (acc + quantity item * price item)
      \<and> exact_steps (acc + quantity item * price item) rest)"

subsection \<open>Example data\<close>

definition page0 :: inputs where
  "page0 = \<lparr>clientNameField = [], fiscalFieldField = [], taxRateField = Num 13,
            currencyField = ''USD''\<rparr>"

definition empty_storage :: storage where
  "empty_storage = \<lparr>ls_invoiceNumber = None, ls_invoiceHistory = None\<rparr>"

definition widget :: form where
  "widget = \<lparr>itemName = ''Widget'', itemQuantity = Num 2, itemPrice = Num 10\<rparr>"

definition gadget :: form where
  "gadget = \<lparr>itemName = ''Gadget'', itemQuantity = Num 3, itemPrice = Num 0.5\<rparr>"

definition tick :: clock where
  "tick = \<lparr>now = 1700000000000, iso = ''2023-11-14T22:13:20.000Z'', localeDate = ''11/14/2023''\<rparr>"

definition tock :: clock where
  "tock = \<lparr>now = 1700000060000, iso = ''2023-11-14T22:14:20.000Z'', localeDate = ''11/14/2023''\<rparr>"

text \<open>
  Two platforms for the examples. On \<open>plain_platform\<close> the text of a block is its
  timestamp followed by the client name and the digest returns its input: stand-ins for
  \<^verbatim>\<open>JSON.stringify\<close> and SHA-256 that keep distinct timestamps apart. On \<open>no_crypto\<close>
  the object \<^verbatim>\<open>crypto.subtle\<close> is undefined, as on a page served without TLS.
\<close>

definition plain_platform :: platform where
  "plain_platform =
     \<lparr>JSON_stringify = (\<lambda>b. bd_timestamp b @ bd_clientName b), subtle_digest = Some (\<lambda>bytes. bytes)\<rparr>"

definition no_crypto :: platform where
  "no_crypto =
     \<lparr>JSON_stringify = (\<lambda>b. bd_timestamp b @ bd_clientName b), subtle_digest = None\<rparr>"

definition demo_start :: session where
  "demo_start = globals page0 empty_storage"

text \<open>A session over currency \<open>c\<close> whose live list is \<open>xs\<close>, and a list of two lines.\<close>

definition priced :: "string \<Rightarrow> item list \<Rightarrow> session" where
  "priced c xs = (globals (page0\<lparr>currencyField := c\<rparr>) empty_storage)\<lparr>heap := (\<lambda>_. [])(0 := xs)\<rparr>"

definition two_lines :: "item list" where
  "two_lines = [\<lparr>name = ''Widget'', quantity = 2, price = 10, item_id = 1\<rparr>,
                \<lparr>name = ''Gadget'', quantity = 3, price = 0.5, item_id = 2\<rparr>]"

text \<open>
  Three lines of quantity 1 priced at the doubles nearest to 0.1, 0.2 and 0.3 (what
  \<^verbatim>\<open>parseFloat\<close> gives for these texts), and a page whose tax-rate field does not parse.
\<close>

definition tenths :: "item list" where
  "tenths = [\<lparr>name = ''One'', quantity = 1, price = rnd 0.1, item_id = 1\<rparr>,
             \<lparr>name = ''Two'', quantity = 1, price = rnd 0.2, item_id = 2\<rparr>,
             \<lparr>name = ''Three'', quantity = 1, price = rnd 0.3, item_id = 3\<rparr>]"

definition untaxed :: "string \<Rightarrow> item list \<Rightarrow> session" where
  "untaxed c xs = (priced c xs)\<lparr>dom := (dom (priced c xs))\<lparr>taxRateField := NaN\<rparr>\<rparr>"

text \<open>A history record numbered \<open>n\<close>, and a storage that holds one saved invoice.\<close>

definition numbered :: "nat \<Rightarrow> ref invoice" where
  "numbered n =
     \<lparr>rec_invoiceNumber = int n, rec_clientName = ''General Client'', rec_fiscalField = [],
      rec_total = Finite 20, rec_currency = ''USD'', rec_convertedTotal = Finite 20,
      rec_date = ''11/14/2023'', rec_hash = None, rec_timestamp = None, rec_items = 0\<rparr>"

definition stored_one :: storage where
  "stored_one = \<lparr>ls_invoiceNumber = Some 1002,
                  ls_invoiceHistory = Some (Json [with_items two_lines (numbered 1001)])\<rparr>"

text \<open>
  A session on \<open>no_crypto\<close> after one item was added; sessions on \<open>plain_platform\<close> after
  an invoice was generated, then regenerated from the history, then given another item;
  and a storage whose history text is cut off.
\<close>

definition unhashed :: session where
  "unhashed = fst (addItem no_crypto tick widget demo_start)"

definition sold :: session where
  "sold = run plain_platform [(tick, AddItem widget), (tick, GeneratePDF)] demo_start"

definition reopened :: session where
  "reopened = run plain_platform [(tock, RegenerateInvoice 0)] sold"

definition extended :: session where
  "extended = run plain_platform [(tock, AddItem gadget)] reopened"

definition corrupt_storage :: storage where
  "corrupt_storage =
     \<lparr>ls_invoiceNumber = Some 1005, ls_invoiceHistory = Some (Garbage ''[{invoiceNumber:1001'')\<rparr>"

text \<open>
  \<open>separates f x y\<close>: the function \<open>f\<close> does not send the two distinct values \<open>x\<close> and \<open>y\<close>
  to one result. For \<open>f\<close> the digest this says that \<open>x\<close> and \<open>y\<close> are not a collision.
\<close>

definition separates :: "('a \<Rightarrow> 'b) \<Rightarrow> 'a \<Rightarrow> 'a \<Rightarrow> bool" where
  "separates f x y = (f x = f y \<longrightarrow> x = y)"

text \<open>An invoice over the two example lines, and the same invoice with other ids.\<close>

definition quoted :: invoiceData where
  "quoted = \<lparr>in_invoiceNumber = 1001, in_clientName = ''General Client'', in_total = Finite 26.875,
             in_items = two_lines\<rparr>"

definition requoted :: invoiceData where
  "requoted = \<lparr>in_invoiceNumber = 1001, in_clientName = ''General Client'', in_total = Finite 26.875,
               in_items = map (\<lambda>item. item\<lparr>item_id := item_id item + 40\<rparr>) two_lines\<rparr>"

section \<open>Effects of the handlers\<close>


lemma calculateTotals_state: "snd (calculateTotals s) = s"
  by (simp add: calculateTotals_def Let_def)

lemma updateDisplay_frame:
  "heap (fst (updateDisplay pf clk s)) = heap s"
  "fresh (fst (updateDisplay pf clk s)) = fresh s"
  "items (fst (updateDisplay pf clk s)) = items s"
  "invoiceNumber (fst (updateDisplay pf clk s)) = invoiceNumber s"
  "invoiceHistory (fst (updateDisplay pf clk s)) = invoiceHistory s"
  "dom (fst (updateDisplay pf clk s)) = dom s"
  "localStorage (fst (updateDisplay pf clk s)) = localStorage s"
  by (simp_all add: updateDisplay_def Let_def case_prod_beta calculateTotals_state
      split: sum.splits)

lemma updateDisplay_empty: "heap s (items s) = [] \<Longrightarrow> updateDisplay pf clk s = (s, None)"
  by (simp add: updateDisplay_def)

lemma validateItem_Num:
  "validateItem f \<Longrightarrow> \<exists>q p. itemQuantity f = Num q \<and> itemPrice f = Num p \<and> 0 < q \<and> 0 < p \<and> trim (itemName f) \<noteq> []"
  by (cases "itemQuantity f"; cases "itemPrice f")
     (auto simp add: validateItem_def Let_def falsy_def le_zero_def split: if_splits)

lemma addItem_frame:
  "items (fst (addItem pf clk f s)) = items s"
  "fresh (fst (addItem pf clk f s)) = fresh s"
  "invoiceNumber (fst (addItem pf clk f s)) = invoiceNumber s"
  "invoiceHistory (fst (addItem pf clk f s)) = invoiceHistory s"
  "dom (fst (addItem pf clk f s)) = dom s"
  "localStorage (fst (addItem pf clk f s)) = localStorage s"
  by (simp_all add: addItem_def Let_def updateDisplay_frame split: number.splits)

lemma addItem_heap:
  "validateItem f \<Longrightarrow> itemQuantity f = Num q \<Longrightarrow> itemPrice f = Num p \<Longrightarrow>
   heap (fst (addItem pf clk f s)) =
     (heap s)(items s := heap s (items s) @
        [\<lparr>name = trim (itemName f), quantity = q, price = p, item_id = now clk\<rparr>])"
  by (simp add: addItem_def Let_def updateDisplay_frame)

lemma addItem_invalid: "\<not> validateItem f \<Longrightarrow> addItem pf clk f s = (s, None)"
  by (simp add: addItem_def)

lemma removeItem_frame:
  "items (fst (removeItem pf clk i s)) = fresh s"
  "fresh (fst (removeItem pf clk i s)) = Suc (fresh s)"
  "heap (fst (removeItem pf clk i s)) =
     (heap s)(fresh s := filter (\<lambda>item. item_id item \<noteq> i) (heap s (items s)))"
  "invoiceNumber (fst (removeItem pf clk i s)) = invoiceNumber s"
  "invoiceHistory (fst (removeItem pf clk i s)) = invoiceHistory s"
  "dom (fst (removeItem pf clk i s)) = dom s"
  "localStorage (fst (removeItem pf clk i s)) = localStorage s"
  by (simp_all add: removeItem_def alloc_def Let_def updateDisplay_frame)

lemma saveToHistory_frame:
  "invoiceHistory (saveToHistory r s) = take 50 (r # invoiceHistory s)"
  "heap (saveToHistory r s) = heap s"
  "fresh (saveToHistory r s) = fresh s"
  "items (saveToHistory r s) = items s"
  "invoiceNumber (saveToHistory r s) = invoiceNumber s"
  "dom (saveToHistory r s) = dom s"
  "currentInvoiceHash (saveToHistory r s) = currentInvoiceHash s"
  "currentInvoiceTimestamp (saveToHistory r s) = currentInvoiceTimestamp s"
  by (simp_all add: saveToHistory_def Let_def)


lemma generatePDF_frame:
  "snd (generatePDF pf clk s) = None"
  "items (fst (generatePDF pf clk s)) = Suc (fresh s)"
  "fresh (fst (generatePDF pf clk s)) = Suc (Suc (fresh s))"
  "heap (fst (generatePDF pf clk s)) = (heap s)(fresh s := heap s (items s), Suc (fresh s) := [])"
  "invoiceNumber (fst (generatePDF pf clk s)) = invoiceNumber s + 1"
  "invoiceHistory (fst (generatePDF pf clk s)) = take 50 (finalized clk s # invoiceHistory s)"
  "dom (fst (generatePDF pf clk s)) = dom s"
  by (simp_all add: generatePDF_def alloc_def Let_def case_prod_beta calculateTotals_state
      updateDisplay_def saveToHistory_def finalized_def clientNameOr_def)

lemma regenerateInvoice_frame:
  "index < length (invoiceHistory s) \<Longrightarrow> items (fst (regenerateInvoice pf clk index s)) = rec_items (invoiceHistory s ! index)"
  "index < length (invoiceHistory s) \<Longrightarrow> invoiceNumber (fst (regenerateInvoice pf clk index s)) = rec_invoiceNumber (invoiceHistory s ! index)"
  "heap (fst (regenerateInvoice pf clk index s)) = heap s"
  "fresh (fst (regenerateInvoice pf clk index s)) = fresh s"
  "invoiceHistory (fst (regenerateInvoice pf clk index s)) = invoiceHistory s"
  "\<not> index < length (invoiceHistory s) \<Longrightarrow> regenerateInvoice pf clk index s = (s, Some TypeError)"
  by (simp_all add: regenerateInvoice_def Let_def updateDisplay_frame)

lemma deleteInvoice_frame:
  "items (fst (deleteInvoice index c s)) = items s"
  "heap (fst (deleteInvoice index c s)) = heap s"
  "fresh (fst (deleteInvoice index c s)) = fresh s"
  "invoiceNumber (fst (deleteInvoice index c s)) = invoiceNumber s"
  "invoiceHistory (fst (deleteInvoice index c s)) =
     (if c then take index (invoiceHistory s) @ drop (Suc index) (invoiceHistory s) else invoiceHistory s)"
  by (simp_all add: deleteInvoice_def Let_def)

lemma finalized_fields:
  "rec_invoiceNumber (finalized clk s) = invoiceNumber s"
  "rec_hash (finalized clk s) = currentInvoiceHash s"
  "rec_timestamp (finalized clk s) = currentInvoiceTimestamp s"
  "rec_items (finalized clk s) = fresh s"
  by (simp_all add: finalized_def)

lemma generatePDF_window:
  "currentInvoiceHash (fst (generatePDF pf clk s)) = currentInvoiceHash s"
  "currentInvoiceTimestamp (fst (generatePDF pf clk s)) = currentInvoiceTimestamp s"
  by (simp_all add: generatePDF_def alloc_def Let_def case_prod_beta calculateTotals_state
      updateDisplay_def saveToHistory_def)

section \<open>Totals\<close>

lemmas double_eval = rnd_def overflow_def round_even_def Let_def numeral_eq_Suc

lemma getTaxRate_cases:
  "taxRateField (dom s) = NaN \<Longrightarrow> getTaxRate s = rnd (13 / 100)"
  "taxRateField (dom s) = Num x \<Longrightarrow> x \<noteq> 0 \<Longrightarrow> getTaxRate s = rnd (max 0 (min 100 x) / 100)"
  "taxRateField (dom s) = Num 0 \<Longrightarrow> getTaxRate s = rnd (13 / 100)"
  by (simp_all add: getTaxRate_def Let_def)

lemma exchangeRates_known:
  "exchangeRates ''USD'' = Some 1"
  "exchangeRates ''EUR'' = Some (rnd 0.92)"
  "exchangeRates ''BOB'' = Some (rnd 6.91)"
  by (simp_all add: exchangeRates_def)

lemma exchangeRates_unknown:
  "c \<notin> {''USD'', ''EUR'', ''BOB''} \<Longrightarrow> exchangeRates c = None"
  by (simp add: exchangeRates_def)

lemma exchangeRates_configured:
  assumes "c \<in> {''USD'', ''EUR'', ''BOB''}"
  shows "\<exists>rate. exchangeRates c = Some rate \<and> rate \<noteq> 0"
proof -
  have p: "rnd 0.92 \<noteq> 0" "rnd 6.91 \<noteq> 0" by (simp_all add: double_eval)
  from assms consider "c = ''USD''" | "c = ''EUR''" | "c = ''BOB''" by blast
  then show ?thesis using p by cases (simp_all add: exchangeRates_known)
qed

lemma totals_fields:
  "subtotal (fst (calculateTotals s))
     = foldl (\<lambda>sum item. fadd sum (fmul (Finite (quantity item)) (Finite (price item))))
         (Finite 0) (heap s (items s))"
  "tax (fst (calculateTotals s)) = fmul (subtotal (fst (calculateTotals s))) (Finite (getTaxRate s))"
  "total (fst (calculateTotals s))
     = fadd (subtotal (fst (calculateTotals s))) (tax (fst (calculateTotals s)))"
  "taxRate (fst (calculateTotals s)) = rnd (getTaxRate s * 100)"
  "currency (fst (calculateTotals s)) = currencyField (dom s)"
  "convertedTotal (fst (calculateTotals s)) =
     (case exchangeRates (currencyField (dom s)) of None \<Rightarrow> NotANumber
      | Some rate \<Rightarrow> fmul (total (fst (calculateTotals s))) (Finite rate))"
  by (simp_all add: calculateTotals_def Let_def split: option.splits)

lemma overflow_representable: "representable x \<Longrightarrow> overflow (rnd x) = Finite x"
  by (simp add: representable_def overflow_def abs_less_iff)

lemma foldl_exact:
  "exact_steps acc xs \<Longrightarrow>
   foldl (\<lambda>sum item. fadd sum (fmul (Finite (quantity item)) (Finite (price item)))) (Finite acc) xs
     = Finite (acc + (\<Sum>item\<leftarrow>xs. quantity item * price item))"
  by (induction xs arbitrary: acc) (simp_all add: overflow_representable add.assoc)

lemma subtotal_exact:
  assumes "exact_steps 0 (heap s (items s))"
  shows "subtotal (fst (calculateTotals s))
    = Finite (\<Sum>item\<leftarrow>heap s (items s). quantity item * price item)"
proof -
  have "subtotal (fst (calculateTotals s))
      = Finite (0 + (\<Sum>item\<leftarrow>heap s (items s). quantity item * price item))"
    by (simp only: totals_fields(1) foldl_exact [OF assms])
  then show ?thesis by (simp only: add_0)
qed

lemma fmul_not_NaN:
  "a \<noteq> NotANumber \<Longrightarrow> rate \<noteq> 0 \<Longrightarrow> fmul a (Finite rate) \<noteq> NotANumber"
  by (cases a) (simp_all add: overflow_def scaled_infinity_def)

lemma sum_list_mset_eq:
  fixes f :: "'a \<Rightarrow> real"
  assumes "mset xs = mset ys"
  shows "(\<Sum>x\<leftarrow>xs. f x) = (\<Sum>x\<leftarrow>ys. f x)"
proof -
  from assms have "mset (map f xs) = mset (map f ys)" by (metis mset_map)
  then show ?thesis by (metis sum_mset_sum_list)
qed

lemma priced_simps:
  "heap (priced c xs) (items (priced c xs)) = xs"
  "currencyField (dom (priced c xs)) = c"
  "taxRateField (dom (priced c xs)) = Num 13"
  by (simp_all add: priced_def globals_def page0_def)

lemma priced_update:
  "(priced c xs)\<lparr>heap := (heap (priced c xs))(items (priced c xs) := ys)\<rparr> = priced c ys"
  by (simp add: priced_def globals_def)

text \<open>Roundings used by the examples.\<close>

lemma rnd_tenths:
  "rnd 0.1 = 3602879701896397 / 2 ^ 55"
  "rnd 0.2 = 3602879701896397 / 2 ^ 54"
  "rnd 0.3 = 5404319552844595 / 2 ^ 54"
  "rnd 0.6 = 5404319552844595 / 2 ^ 53"
  by (simp_all add: double_eval)

lemma thirteen_percent:
  "rnd (13 / 100) = 4683743612465316 / 2 ^ 55"
  "rnd (rnd (13 / 100) * 100) = 13"
  by (simp_all add: double_eval)

lemma two_lines_exact: "exact_steps 0 two_lines" "exact_steps 0 (rev two_lines)"
  by (simp_all add: two_lines_def representable_def double_eval)

lemma two_lines_totals:
  "subtotal (fst (calculateTotals (priced c two_lines))) = Finite (43 / 2)"
  "tax (fst (calculateTotals (priced c two_lines))) = Finite (1573445119812567 / 2 ^ 49)"
  "total (fst (calculateTotals (priced c two_lines))) = Finite (1709608639796347 / 2 ^ 46)"
  "taxRate (fst (calculateTotals (priced c two_lines))) = 13"
  by (simp_all add: totals_fields getTaxRate_def priced_simps two_lines_def double_eval)

section \<open>The history and the start of a session\<close>

lemma splice_length: "length (take i h @ drop (Suc i) h) \<le> length h"
  by (simp add: min_def)

lemma step_history_bounded:
  "length (invoiceHistory s) \<le> 50 \<Longrightarrow> length (invoiceHistory (fst (step pf clk a s))) \<le> 50"
proof (cases a)
  case (DeleteInvoice index confirmed)
  assume "length (invoiceHistory s) \<le> 50"
  with splice_length [of index "invoiceHistory s"] show ?thesis
    unfolding DeleteInvoice by (simp only: step.simps deleteInvoice_frame split: if_splits) simp
qed (simp_all add: addItem_frame removeItem_frame generatePDF_frame regenerateInvoice_frame
        updateDisplay_frame)

lemma take_append_take: "take n (xs @ take n ys) = take n (xs @ ys)"
  by (simp add: min_def)

lemma append_all:
  "length (invoiceHistory s) \<le> 50 \<Longrightarrow>
   invoiceHistory (foldl (\<lambda>s r. saveToHistory r s) s rs) = take 50 (rev rs @ invoiceHistory s)"
proof (induction rs arbitrary: s)
  case Nil
  then show ?case by simp
next
  case (Cons r rs)
  have "length (invoiceHistory (saveToHistory r s)) \<le> 50"
    by (simp add: saveToHistory_frame)
  then have "invoiceHistory (foldl (\<lambda>s r. saveToHistory r s) (saveToHistory r s) rs)
      = take 50 (rev rs @ invoiceHistory (saveToHistory r s))"
    by (rule Cons.IH)
  also have "\<dots> = take 50 (rev rs @ take 50 (r # invoiceHistory s))"
    by (simp only: saveToHistory_frame)
  also have "\<dots> = take 50 (rev rs @ (r # invoiceHistory s))"
    by (rule take_append_take)
  finally show ?case by simp
qed

lemma materialize_length: "length (fst (materialize v s)) = length v"
  by (induction v arbitrary: s) (simp_all add: Let_def case_prod_beta)

lemma materialize_invoiceNumber: "invoiceNumber (snd (materialize v s)) = invoiceNumber s"
  by (induction v arbitrary: s) (simp_all add: Let_def case_prod_beta alloc_def)

lemma DOMContentLoaded_invoiceNumber:
  "invoiceNumber (fst (DOMContentLoaded (globals d st))) =
     (case ls_invoiceNumber st of None \<Rightarrow> 1001 | Some n \<Rightarrow> n)"
  by (simp add: DOMContentLoaded_def Let_def case_prod_beta materialize_invoiceNumber globals_def
      split: option.splits persisted.splits)

lemma DOMContentLoaded_history:
  "invoiceHistory (fst (DOMContentLoaded s)) =
     (case ls_invoiceHistory (localStorage s) of
        Some (Json v) \<Rightarrow> fst (materialize v (case ls_invoiceNumber (localStorage s) of None \<Rightarrow> s | Some n \<Rightarrow> s\<lparr>invoiceNumber := n\<rparr>))
      | _ \<Rightarrow> invoiceHistory s)"
  by (simp add: DOMContentLoaded_def Let_def split: option.splits persisted.splits prod.splits)

lemma step_invoiceNumber:
  assumes "\<forall>i. a \<noteq> RegenerateInvoice i"
  shows "invoiceNumber (fst (step pf clk a s)) = invoiceNumber s + (if a = GeneratePDF then 1 else 0)"
  using assms
  by (cases a)
     (simp_all add: addItem_frame removeItem_frame generatePDF_frame deleteInvoice_frame
        updateDisplay_frame)

lemma run_invoiceNumber:
  "\<forall>x \<in> set as. \<forall>i. snd x \<noteq> RegenerateInvoice i \<Longrightarrow>
   invoiceNumber (run pf as s) = invoiceNumber s + int (length (filter (\<lambda>x. snd x = GeneratePDF) as))"
proof (induction as arbitrary: s)
  case Nil
  then show ?case by simp
next
  case (Cons x as)
  obtain clk a where x: "x = (clk, a)" by (cases x)
  from Cons.prems x have na: "\<forall>i. a \<noteq> RegenerateInvoice i" by simp
  from Cons.prems have "\<forall>x \<in> set as. \<forall>i. snd x \<noteq> RegenerateInvoice i" by simp
  then have "invoiceNumber (run pf as (fst (step pf clk a s)))
      = invoiceNumber (fst (step pf clk a s)) + int (length (filter (\<lambda>x. snd x = GeneratePDF) as))"
    by (rule Cons.IH)
  with step_invoiceNumber [OF na, of pf clk s] show ?case unfolding x by simp
qed

lemma generatePDF_stored: "stored_ok (localStorage (fst (generatePDF pf clk s)))"
  by (simp add: generatePDF_def alloc_def Let_def case_prod_beta calculateTotals_state
      updateDisplay_def saveToHistory_def stringify_history_def stored_ok_def)

lemma deleteInvoice_stored:
  "ledger_ok s \<Longrightarrow> stored_ok (localStorage (fst (deleteInvoice index c s)))"
  using splice_length [of index "invoiceHistory s"]
  by (simp add: deleteInvoice_def Let_def stringify_history_def stored_ok_def ledger_ok_def)

lemma regenerateInvoice_storage:
  "localStorage (fst (regenerateInvoice pf clk index s)) = localStorage s"
  by (simp add: regenerateInvoice_def Let_def updateDisplay_frame)

lemma step_ledger_ok:
  assumes "ledger_ok s"
  shows "ledger_ok (fst (step pf clk a s))"
proof -
  from assms have l: "length (invoiceHistory (fst (step pf clk a s))) \<le> 50"
    by (simp add: ledger_ok_def step_history_bounded)
  have "stored_ok (localStorage (fst (step pf clk a s)))"
  proof (cases a)
    case GeneratePDF
    then show ?thesis by (simp add: generatePDF_stored)
  next
    case (DeleteInvoice index confirmed)
    with assms show ?thesis by (simp add: deleteInvoice_stored)
  qed (use assms in \<open>simp_all add: ledger_ok_def addItem_frame removeItem_frame
        regenerateInvoice_storage updateDisplay_frame\<close>)
  with l show ?thesis by (simp add: ledger_ok_def)
qed

lemma run_ledger_ok: "ledger_ok s \<Longrightarrow> ledger_ok (run pf as s)"
proof (induction as arbitrary: s)
  case Nil
  then show ?case by simp
next
  case (Cons x as)
  obtain clk a where x: "x = (clk, a)" by (cases x)
  from Cons.prems have "ledger_ok (fst (step pf clk a s))" by (rule step_ledger_ok)
  then show ?case unfolding x by (simp add: Cons.IH)
qed

lemma materialize_localStorage: "localStorage (snd (materialize v s)) = localStorage s"
  by (induction v arbitrary: s) (simp_all add: Let_def case_prod_beta alloc_def)

lemma DOMContentLoaded_localStorage: "localStorage (fst (DOMContentLoaded s)) = localStorage s"
  by (simp add: DOMContentLoaded_def Let_def case_prod_beta materialize_localStorage
      split: option.splits persisted.splits)

lemma DOMContentLoaded_ledger_ok:
  assumes "stored_ok st"
  shows "ledger_ok (fst (DOMContentLoaded (globals d st)))"
proof -
  have s: "localStorage (globals d st) = st" "invoiceHistory (globals d st) = []"
    by (simp_all add: globals_def)
  have "length (invoiceHistory (fst (DOMContentLoaded (globals d st)))) \<le> 50"
  proof (cases "ls_invoiceHistory st")
    case None
    then show ?thesis by (simp add: DOMContentLoaded_history s)
  next
    case (Some p)
    show ?thesis
    proof (cases p)
      case (Json v)
      with Some assms have "length v \<le> 50" by (simp add: stored_ok_def)
      with Some Json show ?thesis
        by (simp add: DOMContentLoaded_history s materialize_length)
    next
      case (Garbage b)
      with Some show ?thesis by (simp add: DOMContentLoaded_history s)
    qed
  qed
  with assms show ?thesis by (simp add: ledger_ok_def DOMContentLoaded_localStorage s)
qed

section \<open>The example sessions\<close>

lemma validate_examples: "validateItem widget" "validateItem gadget"
  by (simp_all add: validateItem_def widget_def gadget_def trim_def is_space_def falsy_def le_zero_def Let_def)

lemma demo_start_fields:
  "heap demo_start = (\<lambda>_. [])" "fresh demo_start = 1" "items demo_start = 0"
  "invoiceNumber demo_start = 1001" "invoiceHistory demo_start = []"
  by (simp_all add: demo_start_def globals_def)

lemma example_forms:
  "itemQuantity widget = Num 2" "itemPrice widget = Num 10" "trim (itemName widget) = ''Widget''"
  "itemQuantity gadget = Num 3" "itemPrice gadget = Num 0.5" "trim (itemName gadget) = ''Gadget''"
  by (simp_all add: widget_def gadget_def trim_def is_space_def)

lemma sold_state:
  "invoiceNumber sold = 1002"
  "map rec_items (invoiceHistory sold) = [1]"
  "items sold = 2"
  "heap sold = (\<lambda>_. [])(0 := [\<lparr>name = ''Widget'', quantity = 2, price = 10, item_id = now tick\<rparr>],
                          1 := [\<lparr>name = ''Widget'', quantity = 2, price = 10, item_id = now tick\<rparr>],
                          2 := [])"
  by (simp_all add: sold_def generatePDF_frame addItem_frame finalized_fields demo_start_fields
      addItem_heap [OF validate_examples(1) example_forms(1) example_forms(2)] example_forms
      numeral_2_eq_2)

lemma reopened_state:
  "items reopened = 1"
  "invoiceHistory reopened = invoiceHistory sold"
  "heap reopened = heap sold"
proof -
  have "length (invoiceHistory sold) = 1"
    using sold_state(2) by (metis length_map length_Cons list.size(3) One_nat_def)
  then have i: "0 < length (invoiceHistory sold)" by simp
  then have "rec_items (invoiceHistory sold ! 0) = 1"
    using sold_state(2) by (metis nth_map nth_Cons_0)
  with i show "items reopened = 1"
    by (simp add: reopened_def regenerateInvoice_frame)
  show "invoiceHistory reopened = invoiceHistory sold" "heap reopened = heap sold"
    by (simp_all add: reopened_def regenerateInvoice_frame)
qed

lemma extended_state:
  "invoiceHistory extended = invoiceHistory sold"
  "heap extended = (heap sold)(1 := [\<lparr>name = ''Widget'', quantity = 2, price = 10, item_id = now tick\<rparr>,
                                     \<lparr>name = ''Gadget'', quantity = 3, price = 0.5, item_id = now tock\<rparr>])"
  by (simp_all add: extended_def addItem_frame reopened_state
      addItem_heap [OF validate_examples(2) example_forms(4) example_forms(5)] example_forms)
     (simp add: sold_state)

lemma unhashed_state:
  "addItem no_crypto tick widget demo_start =
     (demo_start\<lparr>heap := (\<lambda>_. [])(0 := [\<lparr>name = ''Widget'', quantity = 2, price = 10, item_id = 1700000000000\<rparr>])\<rparr>,
      Some TypeError)"
  by (simp add: addItem_def validate_examples)
     (simp add: updateDisplay_def case_prod_beta calculateTotals_state
        generateBlockchainData_def generateHash_def no_crypto_def Let_def
        widget_def tick_def demo_start_def globals_def trim_def is_space_def)

section \<open>The block and its hash\<close>

lemma differ_only_in_ids_lines:
  "differ_only_in_ids xs ys \<Longrightarrow>
   map (\<lambda>item. \<lparr>name = name item, quantity = quantity item, price = price item\<rparr>) xs
   = map (\<lambda>item. \<lparr>name = name item, quantity = quantity item, price = price item\<rparr>) ys"
  unfolding differ_only_in_ids_def
  by (induction xs ys rule: list_all2_induct) simp_all

lemma blockDataOf_ids:
  assumes "in_invoiceNumber a = in_invoiceNumber b" "in_clientName a = in_clientName b"
    "in_total a = in_total b" "differ_only_in_ids (in_items a) (in_items b)"
  shows "blockDataOf ts a = blockDataOf ts b"
  using assms by (simp add: blockDataOf_def differ_only_in_ids_lines)

lemma blockDataOf_timestamp: "bd_timestamp (blockDataOf ts a) = ts"
  by (simp add: blockDataOf_def)

lemma generateBlockchainData_hash:
  "subtle_digest pf = Some digest \<Longrightarrow>
   generateBlockchainData pf clk a =
     Inr \<lparr>hash = concat (map (\<lambda>b. padStart 2 (CHR ''0'') (toString16 (unat b)))
                        (digest (hashed_bytes pf (iso clk) a))),
          timestamp = iso clk, data = blockDataOf (iso clk) a\<rparr>"
  by (simp add: generateBlockchainData_def generateHash_def hashed_bytes_def hashed_text_def Let_def)

text \<open>The hexadecimal rendering and the encoding are injective.\<close>

lemma hex_digit_inj: "m < 16 \<Longrightarrow> n < 16 \<Longrightarrow> hex_digit m = hex_digit n \<Longrightarrow> m = n"
proof -
  assume m: "m < 16" and n: "n < 16" and e: "hex_digit m = hex_digit n"
  have d: "distinct ''0123456789abcdef''" by simp
  have l: "length ''0123456789abcdef'' = 16" by simp
  from d l m n e show "m = n"
    unfolding hex_digit_def by (metis nth_eq_iff_index_eq)
qed

lemma hex_byte:
  fixes b :: byte
  shows "padStart 2 (CHR ''0'') (toString16 (unat b)) = [hex_digit (unat b div 16), hex_digit (unat b mod 16)]"
proof -
  have lt: "unat b < 256" using unsigned_less [of b, where ?'a = nat] by simp
  show ?thesis
  proof (cases "unat b < 16")
    case True
    then have "toString16 (unat b) = [hex_digit (unat b)]" by (simp add: toString16.simps)
    moreover have "hex_digit 0 = CHR ''0''" by (simp add: hex_digit_def)
    ultimately show ?thesis using True by (simp add: padStart_def)
  next
    case False
    from lt have q: "unat b div 16 < 16" by simp
    have "toString16 (unat b) = toString16 (unat b div 16) @ [hex_digit (unat b mod 16)]"
      using False by (subst toString16.simps) simp
    also have "toString16 (unat b div 16) = [hex_digit (unat b div 16)]"
      using q by (subst toString16.simps) simp
    finally show ?thesis by (simp add: padStart_def)
  qed
qed

lemma hex_byte_inj:
  fixes a b :: byte
  assumes "padStart 2 (CHR ''0'') (toString16 (unat a)) = padStart 2 (CHR ''0'') (toString16 (unat b))"
  shows "a = b"
proof -
  have la: "unat a < 256" using unsigned_less [of a, where ?'a = nat] by simp
  have lb: "unat b < 256" using unsigned_less [of b, where ?'a = nat] by simp
  from assms have "hex_digit (unat a div 16) = hex_digit (unat b div 16)"
    and "hex_digit (unat a mod 16) = hex_digit (unat b mod 16)"
    by (simp_all add: hex_byte)
  with la lb have "unat a div 16 = unat b div 16" and "unat a mod 16 = unat b mod 16"
    by (auto intro!: hex_digit_inj)
  then have "unat a = unat b" by (metis div_mult_mod_eq)
  then show ?thesis by (simp add: word_unat_eq_iff)
qed

lemma hashHex_inj:
  fixes xs ys :: "byte list"
  shows "concat (map (\<lambda>b. padStart 2 (CHR ''0'') (toString16 (unat b))) xs)
       = concat (map (\<lambda>b. padStart 2 (CHR ''0'') (toString16 (unat b))) ys) \<Longrightarrow> xs = ys"
proof (induction xs arbitrary: ys)
  case Nil
  then show ?case by (cases ys) (simp_all add: hex_byte)
next
  case (Cons x xs)
  show ?case
  proof (cases ys)
    case Nil
    with Cons.prems show ?thesis by (simp add: hex_byte)
  next
    case (Cons y ys')
    with Cons.prems have h: "padStart 2 (CHR ''0'') (toString16 (unat x)) = padStart 2 (CHR ''0'') (toString16 (unat y))"
      and t: "concat (map (\<lambda>b. padStart 2 (CHR ''0'') (toString16 (unat b))) xs)
       = concat (map (\<lambda>b. padStart 2 (CHR ''0'') (toString16 (unat b))) ys')"
      by (simp_all add: hex_byte)
    from h have "x = y" by (rule hex_byte_inj)
    moreover from t have "xs = ys'" by (rule Cons.IH)
    ultimately show ?thesis using Cons by simp
  qed
qed

lemma encode_inj: "encode s = encode t \<Longrightarrow> s = t"
proof -
  have "inj (\<lambda>c::char. (word_of_nat (of_char c) :: byte))"
  proof (rule injI)
    fix c d :: char
    assume e: "(word_of_nat (of_char c) :: byte) = word_of_nat (of_char d)"
    have "(of_char c :: nat) < 256" "(of_char d :: nat) < 256" by simp_all
    then have "unat (word_of_nat (of_char c) :: byte) = of_char c"
      and "unat (word_of_nat (of_char d) :: byte) = of_char d"
      by (simp_all add: unat_of_nat)
    with e have "(of_char c :: nat) = of_char d" by metis
    then show "c = d" by simp
  qed
  then have "inj (map (\<lambda>c::char. (word_of_nat (of_char c) :: byte)))" by (rule inj_mapI)
  moreover assume "encode s = encode t"
  ultimately show "s = t" unfolding encode_def by (simp add: inj_eq)
qed

section \<open>Claim C1: finalize when no fingerprint could be made\<close>

text \<open>
  Claim C1, as stated: when fingerprint generation fails, finalize leaves items, counter
  and history as they were. On \<open>no_crypto\<close> hashing throws in \<^verbatim>\<open>updateDisplay\<close> after the
  item was pushed, so the session \<open>unhashed\<close> holds one item and no hash. \<^verbatim>\<open>generatePDF\<close>
  there empties the list, moves the counter from 1001 to 1002 and appends a record whose
  hash is undefined.
\<close>

theorem finalize_without_fingerprint:
  "snd (addItem no_crypto tick widget demo_start) = Some TypeError
   \<and> currentInvoiceHash unhashed = None
   \<and> heap unhashed (items unhashed)
        = [\<lparr>name = ''Widget'', quantity = 2, price = 10, item_id = 1700000000000\<rparr>]
   \<and> invoiceNumber unhashed = 1001
   \<and> invoiceHistory unhashed = []
   \<and> heap (fst (generatePDF no_crypto tock unhashed)) (items (fst (generatePDF no_crypto tock unhashed))) = []
   \<and> invoiceNumber (fst (generatePDF no_crypto tock unhashed)) = 1002
   \<and> map rec_hash (invoiceHistory (fst (generatePDF no_crypto tock unhashed))) = [None]"
proof -
  have u: "unhashed = demo_start\<lparr>heap := (\<lambda>_. [])(0 := [\<lparr>name = ''Widget'', quantity = 2, price = 10, item_id = 1700000000000\<rparr>])\<rparr>"
    by (simp add: unhashed_def unhashed_state)
  have a: "snd (addItem no_crypto tick widget demo_start) = Some TypeError"
    by (simp add: unhashed_state)
  have b: "currentInvoiceHash unhashed = None" "invoiceNumber unhashed = 1001"
    "invoiceHistory unhashed = []"
    "heap unhashed (items unhashed) = [\<lparr>name = ''Widget'', quantity = 2, price = 10, item_id = 1700000000000\<rparr>]"
    by (simp_all add: u demo_start_def globals_def)
  have c: "heap (fst (generatePDF no_crypto tock unhashed)) (items (fst (generatePDF no_crypto tock unhashed))) = []"
    "invoiceNumber (fst (generatePDF no_crypto tock unhashed)) = 1002"
    "map rec_hash (invoiceHistory (fst (generatePDF no_crypto tock unhashed))) = [None]"
    by (simp_all add: generatePDF_frame finalized_fields b)
  from a b c show ?thesis by (intro conjI)
qed

text \<open>
  Claim C1, amended. \<^verbatim>\<open>generatePDF\<close> has no failure path and requests no fingerprint of
  its own: in every state, also one where no fingerprint could be generated, it appends
  at the head of the history one record that carries the hash last stored by a display
  refresh (undefined if there was none) and a copy of the items, increments the counter
  by 1 and empties the live list.
\<close>

theorem generatePDF_always_finalizes:
  "snd (generatePDF pf clk s) = None
   \<and> heap (fst (generatePDF pf clk s)) (items (fst (generatePDF pf clk s))) = []
   \<and> invoiceNumber (fst (generatePDF pf clk s)) = invoiceNumber s + 1
   \<and> invoiceHistory (fst (generatePDF pf clk s)) = take 50 (finalized clk s # invoiceHistory s)
   \<and> rec_hash (finalized clk s) = currentInvoiceHash s
   \<and> heap (fst (generatePDF pf clk s)) (rec_items (finalized clk s)) = heap s (items s)
   \<and> currentInvoiceHash (fst (generatePDF pf clk s)) = currentInvoiceHash s"
  by (simp add: generatePDF_frame finalized_fields generatePDF_window)

section \<open>Claim C2: the totals\<close>

text \<open>
  Claim C2, as stated: the subtotal is the sum of \<open>quantity * price\<close> over the list and
  does not depend on the order of the items. The script adds doubles from the left and
  every addition rounds. For three lines of quantity 1 priced at the doubles nearest to
  0.1, 0.2 and 0.3 the subtotal is \<open>5404319552844596 / 2 ^ 53\<close> (printed
  \<^verbatim>\<open>0.6000000000000001\<close>); for the same lines in reverse order it is
  \<open>5404319552844595 / 2 ^ 53\<close> (printed \<^verbatim>\<open>0.6\<close>); the sum of the three prices is neither.
\<close>

theorem subtotal_depends_on_order:
  "mset (rev tenths) = mset tenths
   \<and> subtotal (fst (calculateTotals (priced ''USD'' tenths))) = Finite (5404319552844596 / 2 ^ 53)
   \<and> subtotal (fst (calculateTotals (priced ''USD'' (rev tenths))))
        = Finite (5404319552844595 / 2 ^ 53)
   \<and> (\<Sum>item\<leftarrow>tenths. quantity item * price item) = 21617278211378381 / 2 ^ 55"
proof -
  have a: "subtotal (fst (calculateTotals (priced ''USD'' tenths)))
      = Finite (5404319552844596 / 2 ^ 53)"
    by (simp add: totals_fields priced_simps tenths_def double_eval)
  have b: "subtotal (fst (calculateTotals (priced ''USD'' (rev tenths))))
      = Finite (5404319552844595 / 2 ^ 53)"
    by (simp add: totals_fields priced_simps tenths_def double_eval)
  have c: "(\<Sum>item\<leftarrow>tenths. quantity item * price item) = 21617278211378381 / 2 ^ 55"
    by (simp add: tenths_def double_eval)
  have m: "mset (rev tenths) = mset tenths" by (rule mset_rev)
  from m a b c show ?thesis by (intro conjI)
qed

text \<open>
  Claim C2, amended. For every list of items, every parsed tax-rate input and every
  currency of the configured set, \<^verbatim>\<open>calculateTotals\<close> computes in doubles, each operation
  rounded to the nearest double. The subtotal is the sum of the rounded products
  \<open>quantity * price\<close> accumulated from the left in list order; it is the exact sum when no
  step rounds, and then the same for every order of the items in which no step rounds.
  With \<open>p\<close> the rate used (13 for an input that does not parse, a parsed input other than
  0 clamped into \<open>[0, 100]\<close>), \<open>tax = subtotal * (p / 100)\<close> and the percentage returned is
  \<open>(p / 100) * 100\<close>; \<open>total = subtotal + tax\<close>; \<open>convertedTotal = total * rate\<close> for the
  rate of the currency (1, the double nearest 0.92, the double nearest 6.91). The state
  is returned unchanged.
\<close>

theorem calculateTotals_in_doubles:
  "snd (calculateTotals s) = s
   \<and> subtotal (fst (calculateTotals s))
        = foldl (\<lambda>sum item. fadd sum (fmul (Finite (quantity item)) (Finite (price item))))
            (Finite 0) (heap s (items s))
   \<and> (exact_steps 0 (heap s (items s)) \<longrightarrow>
        subtotal (fst (calculateTotals s))
          = Finite (\<Sum>item\<leftarrow>heap s (items s). quantity item * price item))
   \<and> (\<forall>ys. mset ys = mset (heap s (items s)) \<and> exact_steps 0 (heap s (items s))
          \<and> exact_steps 0 ys \<longrightarrow>
        subtotal (fst (calculateTotals (s\<lparr>heap := (heap s)(items s := ys)\<rparr>)))
          = subtotal (fst (calculateTotals s)))
   \<and> (taxRateField (dom s) = NaN \<longrightarrow>
        tax (fst (calculateTotals s))
          = fmul (subtotal (fst (calculateTotals s))) (Finite (rnd (13 / 100)))
        \<and> taxRate (fst (calculateTotals s)) = rnd (rnd (13 / 100) * 100))
   \<and> (\<forall>x. taxRateField (dom s) = Num x \<and> x \<noteq> 0 \<longrightarrow>
        tax (fst (calculateTotals s))
          = fmul (subtotal (fst (calculateTotals s))) (Finite (rnd (max 0 (min 100 x) / 100)))
        \<and> taxRate (fst (calculateTotals s)) = rnd (rnd (max 0 (min 100 x) / 100) * 100))
   \<and> total (fst (calculateTotals s))
        = fadd (subtotal (fst (calculateTotals s))) (tax (fst (calculateTotals s)))
   \<and> (currencyField (dom s) = ''USD'' \<longrightarrow>
        convertedTotal (fst (calculateTotals s))
          = fmul (total (fst (calculateTotals s))) (Finite 1))
   \<and> (currencyField (dom s) = ''EUR'' \<longrightarrow>
        convertedTotal (fst (calculateTotals s))
          = fmul (total (fst (calculateTotals s))) (Finite (rnd 0.92)))
   \<and> (currencyField (dom s) = ''BOB'' \<longrightarrow>
        convertedTotal (fst (calculateTotals s))
          = fmul (total (fst (calculateTotals s))) (Finite (rnd 6.91)))"
proof (intro conjI allI impI)
  show "snd (calculateTotals s) = s" by (rule calculateTotals_state)
  show "subtotal (fst (calculateTotals s))
        = foldl (\<lambda>sum item. fadd sum (fmul (Finite (quantity item)) (Finite (price item))))
            (Finite 0) (heap s (items s))"
    by (rule totals_fields)
  show "total (fst (calculateTotals s))
        = fadd (subtotal (fst (calculateTotals s))) (tax (fst (calculateTotals s)))"
    by (rule totals_fields)
next
  assume "exact_steps 0 (heap s (items s))"
  then show "subtotal (fst (calculateTotals s))
      = Finite (\<Sum>item\<leftarrow>heap s (items s). quantity item * price item)"
    by (rule subtotal_exact)
next
  fix ys
  assume a: "mset ys = mset (heap s (items s)) \<and> exact_steps 0 (heap s (items s))
      \<and> exact_steps 0 ys"
  then have "subtotal (fst (calculateTotals s))
      = Finite (\<Sum>item\<leftarrow>heap s (items s). quantity item * price item)"
    by (simp add: subtotal_exact)
  moreover from a have "subtotal (fst (calculateTotals (s\<lparr>heap := (heap s)(items s := ys)\<rparr>)))
      = Finite (\<Sum>item\<leftarrow>ys. quantity item * price item)"
    using subtotal_exact [of "s\<lparr>heap := (heap s)(items s := ys)\<rparr>"] by simp
  moreover from a have "(\<Sum>item\<leftarrow>ys. quantity item * price item)
      = (\<Sum>item\<leftarrow>heap s (items s). quantity item * price item)"
    by (simp add: sum_list_mset_eq [of ys "heap s (items s)"])
  ultimately show "subtotal (fst (calculateTotals (s\<lparr>heap := (heap s)(items s := ys)\<rparr>)))
      = subtotal (fst (calculateTotals s))"
    by simp
next
  assume n: "taxRateField (dom s) = NaN"
  then show "tax (fst (calculateTotals s))
      = fmul (subtotal (fst (calculateTotals s))) (Finite (rnd (13 / 100)))"
    by (simp add: totals_fields(2) getTaxRate_cases(1))
  from n show "taxRate (fst (calculateTotals s)) = rnd (rnd (13 / 100) * 100)"
    by (simp add: totals_fields(4) getTaxRate_cases(1))
next
  fix x assume x: "taxRateField (dom s) = Num x \<and> x \<noteq> 0"
  then have g: "getTaxRate s = rnd (max 0 (min 100 x) / 100)"
    by (simp add: getTaxRate_cases(2))
  then show "tax (fst (calculateTotals s))
      = fmul (subtotal (fst (calculateTotals s))) (Finite (rnd (max 0 (min 100 x) / 100)))"
    by (simp add: totals_fields(2))
  from g show "taxRate (fst (calculateTotals s)) = rnd (rnd (max 0 (min 100 x) / 100) * 100)"
    by (simp add: totals_fields(4))
next
  assume "currencyField (dom s) = ''USD''"
  then show "convertedTotal (fst (calculateTotals s))
      = fmul (total (fst (calculateTotals s))) (Finite 1)"
    by (simp add: totals_fields(6) exchangeRates_known)
next
  assume "currencyField (dom s) = ''EUR''"
  then show "convertedTotal (fst (calculateTotals s))
      = fmul (total (fst (calculateTotals s))) (Finite (rnd 0.92))"
    by (simp add: totals_fields(6) exchangeRates_known)
next
  assume "currencyField (dom s) = ''BOB''"
  then show "convertedTotal (fst (calculateTotals s))
      = fmul (total (fst (calculateTotals s))) (Finite (rnd 6.91))"
    by (simp add: totals_fields(6) exchangeRates_known)
qed

text \<open>
  The amended statement at the two example lines (2 at 10 and 3 at 0.5) and at their
  reverse: at 13 percent in EUR and in BOB, and with a tax-rate field that does not
  parse in USD.
\<close>

theorem calculateTotals_in_doubles_witness:
  "exact_steps 0 two_lines \<and> exact_steps 0 (rev two_lines)
   \<and> mset (rev two_lines) = mset two_lines
   \<and> subtotal (fst (calculateTotals (priced ''EUR'' (rev two_lines)))) = Finite 21.5
   \<and> taxRateField (dom (priced ''EUR'' two_lines)) = Num 13
   \<and> snd (calculateTotals (priced ''EUR'' two_lines)) = priced ''EUR'' two_lines
   \<and> subtotal (fst (calculateTotals (priced ''EUR'' two_lines))) = Finite 21.5
   \<and> tax (fst (calculateTotals (priced ''EUR'' two_lines))) = Finite (1573445119812567 / 2 ^ 49)
   \<and> taxRate (fst (calculateTotals (priced ''EUR'' two_lines))) = 13
   \<and> total (fst (calculateTotals (priced ''EUR'' two_lines)))
        = Finite (1709608639796347 / 2 ^ 46)
   \<and> convertedTotal (fst (calculateTotals (priced ''EUR'' two_lines)))
        = Finite (6291359794450557 / 2 ^ 48)
   \<and> convertedTotal (fst (calculateTotals (priced ''BOB'' two_lines)))
        = Finite (5906697850496379 / 2 ^ 45)
   \<and> taxRateField (dom (untaxed ''USD'' two_lines)) = NaN
   \<and> tax (fst (calculateTotals (untaxed ''USD'' two_lines)))
        = Finite (1573445119812567 / 2 ^ 49)
   \<and> convertedTotal (fst (calculateTotals (untaxed ''USD'' two_lines)))
        = Finite (1709608639796347 / 2 ^ 46)"
proof -
  let ?e = "priced ''EUR'' two_lines"
  let ?b = "priced ''BOB'' two_lines"
  let ?u = "untaxed ''USD'' two_lines"
  have ex: "exact_steps 0 two_lines" by (rule two_lines_exact)
  have exr: "exact_steps 0 (rev two_lines)" by (rule two_lines_exact)
  have ms: "mset (rev two_lines) = mset two_lines" by (rule mset_rev)
  have sum: "(\<Sum>item\<leftarrow>two_lines. quantity item * price item) = 21.5"
    by (simp add: two_lines_def)
  have t13: "taxRateField (dom ?e) = Num 13" "taxRateField (dom ?b) = Num 13"
    by (simp_all add: priced_simps)
  have un: "heap ?u (items ?u) = two_lines" "currencyField (dom ?u) = ''USD''"
    "taxRateField (dom ?u) = NaN"
    by (simp_all add: untaxed_def priced_def globals_def page0_def)
  have clamp: "max 0 (min 100 (13::real)) = 13" by simp
  note e = calculateTotals_in_doubles [of ?e]
  note b = calculateTotals_in_doubles [of ?b]
  note u = calculateTotals_in_doubles [of ?u]
  from e have e0: "snd (calculateTotals ?e) = ?e" by (rule conjunct1)
  from e have "exact_steps 0 (heap ?e (items ?e)) \<longrightarrow>
        subtotal (fst (calculateTotals ?e))
          = Finite (\<Sum>item\<leftarrow>heap ?e (items ?e). quantity item * price item)"
    by blast
  with ex have e1: "subtotal (fst (calculateTotals ?e)) = Finite 21.5"
    by (simp only: priced_simps sum simp_thms)
  from e have "\<forall>ys. mset ys = mset (heap ?e (items ?e)) \<and> exact_steps 0 (heap ?e (items ?e))
          \<and> exact_steps 0 ys \<longrightarrow>
        subtotal (fst (calculateTotals (?e\<lparr>heap := (heap ?e)(items ?e := ys)\<rparr>)))
          = subtotal (fst (calculateTotals ?e))"
    by blast
  then have "mset (rev two_lines) = mset (heap ?e (items ?e)) \<and> exact_steps 0 (heap ?e (items ?e))
          \<and> exact_steps 0 (rev two_lines) \<longrightarrow>
        subtotal (fst (calculateTotals (?e\<lparr>heap := (heap ?e)(items ?e := rev two_lines)\<rparr>)))
          = subtotal (fst (calculateTotals ?e))"
    by (rule spec)
  with ex exr ms have er: "subtotal (fst (calculateTotals (priced ''EUR'' (rev two_lines)))) = Finite 21.5"
    by (simp only: priced_update priced_simps e1 simp_thms)
  from e t13 have "tax (fst (calculateTotals ?e))
        = fmul (subtotal (fst (calculateTotals ?e))) (Finite (rnd (max 0 (min 100 13) / 100)))"
    and "taxRate (fst (calculateTotals ?e)) = rnd (rnd (max 0 (min 100 13) / 100) * 100)"
    by fastforce+
  then have e2: "tax (fst (calculateTotals ?e)) = Finite (1573445119812567 / 2 ^ 49)"
    and e3: "taxRate (fst (calculateTotals ?e)) = 13"
    by (simp_all only: e1 clamp thirteen_percent) (simp_all add: double_eval)
  from e have "total (fst (calculateTotals ?e))
        = fadd (subtotal (fst (calculateTotals ?e))) (tax (fst (calculateTotals ?e)))"
    by blast
  then have e4: "total (fst (calculateTotals ?e)) = Finite (1709608639796347 / 2 ^ 46)"
    by (simp only: e1 e2) (simp add: double_eval)
  from e have "convertedTotal (fst (calculateTotals ?e))
          = fmul (total (fst (calculateTotals ?e))) (Finite (rnd 0.92))"
    by (simp only: priced_simps simp_thms)
  then have e5: "convertedTotal (fst (calculateTotals ?e)) = Finite (6291359794450557 / 2 ^ 48)"
    by (simp only: e4) (simp add: double_eval)
  from b have "convertedTotal (fst (calculateTotals ?b))
          = fmul (total (fst (calculateTotals ?b))) (Finite (rnd 6.91))"
    by (simp only: priced_simps simp_thms)
  then have b5: "convertedTotal (fst (calculateTotals ?b)) = Finite (5906697850496379 / 2 ^ 45)"
    by (simp only: two_lines_totals) (simp add: double_eval)
  from u have "exact_steps 0 (heap ?u (items ?u)) \<longrightarrow>
        subtotal (fst (calculateTotals ?u))
          = Finite (\<Sum>item\<leftarrow>heap ?u (items ?u). quantity item * price item)"
    by blast
  with ex have u1: "subtotal (fst (calculateTotals ?u)) = Finite 21.5"
    by (simp only: un sum simp_thms)
  from u un have "tax (fst (calculateTotals ?u))
        = fmul (subtotal (fst (calculateTotals ?u))) (Finite (rnd (13 / 100)))"
    by blast
  then have u2: "tax (fst (calculateTotals ?u)) = Finite (1573445119812567 / 2 ^ 49)"
    by (simp only: u1 thirteen_percent) (simp add: double_eval)
  from u un have "convertedTotal (fst (calculateTotals ?u))
      = fmul (total (fst (calculateTotals ?u))) (Finite 1)"
    by blast
  moreover from u have "total (fst (calculateTotals ?u))
        = fadd (subtotal (fst (calculateTotals ?u))) (tax (fst (calculateTotals ?u)))"
    by blast
  ultimately have u5: "convertedTotal (fst (calculateTotals ?u))
      = Finite (1709608639796347 / 2 ^ 46)"
    using u1 u2 by (simp add: double_eval)
  from ex exr ms er t13(1) e0 e1 e2 e3 e4 e5 b5 un(3) u2 u5 show ?thesis by (intro conjI)
qed

section \<open>Claim C3: the tax rate\<close>

text \<open>
  Claim C3. An absent or unparsable tax-rate input gives the default 13, and a parsed
  value is clamped into \<open>[0, 100]\<close> and otherwise used as it is, 0 included. The first
  two facts of \<open>getTaxRate_cases\<close> are the part that holds. The input \<^verbatim>\<open>0\<close> is where
  the script departs: \<^verbatim>\<open>parseFloat("0") || 13\<close> is 13, because 0 is falsy, so the rate
  used is 13 percent and not 0: \<^verbatim>\<open>getTaxRate\<close> returns the double nearest to 0.13, and
  the percentage that \<^verbatim>\<open>calculateTotals\<close> returns is 13.
\<close>

theorem getTaxRate_zero_input:
  "getTaxRate (globals (page0\<lparr>taxRateField := Num 0\<rparr>) empty_storage) = rnd (13 / 100)
   \<and> rnd (13 / 100) = 4683743612465316 / 2 ^ 55
   \<and> taxRate (fst (calculateTotals (globals (page0\<lparr>taxRateField := Num 0\<rparr>) empty_storage))) = 13"
proof -
  have g: "getTaxRate (globals (page0\<lparr>taxRateField := Num 0\<rparr>) empty_storage) = rnd (13 / 100)"
    by (simp add: getTaxRate_def globals_def page0_def)
  then have "taxRate (fst (calculateTotals (globals (page0\<lparr>taxRateField := Num 0\<rparr>) empty_storage)))
      = rnd (rnd (13 / 100) * 100)"
    by (simp only: totals_fields(4))
  then have t: "taxRate (fst (calculateTotals (globals (page0\<lparr>taxRateField := Num 0\<rparr>) empty_storage))) = 13"
    by (simp only: thirteen_percent(2))
  from g thirteen_percent(1) t show ?thesis by (intro conjI)
qed

section \<open>Claim C4: the history holds at most 50 records, newest first\<close>

text \<open>
  Claim C4. \<^verbatim>\<open>saveToHistory\<close> puts the new record at the head and keeps the first 50,
  so the history never holds more than 50 records. The load at the start of a session
  gives such a history when the persisted one has at most 50 records; every event of a
  session keeps a history of at most 50 and persists only such histories, so the bound
  passes from one session to the next. Appending 51 records one at a time to the empty
  history leaves exactly 50: all but the first appended, in reverse order of arrival,
  the last appended at the head.
\<close>

theorem history_bounded:
  "invoiceHistory (saveToHistory r s) = take 50 (r # invoiceHistory s)
   \<and> hd (invoiceHistory (saveToHistory r s)) = r
   \<and> length (invoiceHistory (saveToHistory r s)) \<le> 50
   \<and> (stored_ok st \<longrightarrow> ledger_ok (fst (DOMContentLoaded (globals d st))))
   \<and> (ledger_ok s \<longrightarrow>
         ledger_ok (run pf as s) \<and> length (invoiceHistory (run pf as s)) \<le> 50)
   \<and> (invoiceHistory s = [] \<and> length rs = 51 \<longrightarrow>
         invoiceHistory (foldl (\<lambda>s r. saveToHistory r s) s rs) = rev (tl rs)
         \<and> length (invoiceHistory (foldl (\<lambda>s r. saveToHistory r s) s rs)) = 50
         \<and> hd (invoiceHistory (foldl (\<lambda>s r. saveToHistory r s) s rs)) = last rs)"
proof (intro conjI impI)
  show "invoiceHistory (saveToHistory r s) = take 50 (r # invoiceHistory s)"
    by (rule saveToHistory_frame)
  show "hd (invoiceHistory (saveToHistory r s)) = r"
    by (simp add: saveToHistory_frame)
  show "length (invoiceHistory (saveToHistory r s)) \<le> 50"
    by (simp add: saveToHistory_frame)
next
  assume "stored_ok st"
  then show "ledger_ok (fst (DOMContentLoaded (globals d st)))"
    by (rule DOMContentLoaded_ledger_ok)
next
  assume "ledger_ok s"
  then show k: "ledger_ok (run pf as s)" by (rule run_ledger_ok)
  then show "length (invoiceHistory (run pf as s)) \<le> 50" by (simp add: ledger_ok_def)
next
  assume a: "invoiceHistory s = [] \<and> length rs = 51"
  then have e: "invoiceHistory (foldl (\<lambda>s r. saveToHistory r s) s rs) = take 50 (rev rs)"
    by (simp add: append_all)
  from a have "rev rs = rev (tl rs) @ [hd rs]"
    by (cases rs) simp_all
  moreover from a have l: "length (rev (tl rs)) = 50" by simp
  ultimately have t: "take 50 (rev rs) = rev (tl rs)" by simp
  with e show f: "invoiceHistory (foldl (\<lambda>s r. saveToHistory r s) s rs) = rev (tl rs)" by simp
  from f l show "length (invoiceHistory (foldl (\<lambda>s r. saveToHistory r s) s rs)) = 50" by simp
  from a have "tl rs \<noteq> []" by (cases rs) auto
  then have "hd (rev (tl rs)) = last rs"
    by (metis hd_rev last_tl)
  with f show "hd (invoiceHistory (foldl (\<lambda>s r. saveToHistory r s) s rs)) = last rs" by simp
qed

text \<open>
  The theorem at a storage with one saved invoice, at a short session, and at 51
  records numbered 1001 to 1051.
\<close>

theorem history_bounded_witness:
  "stored_ok stored_one
   \<and> ledger_ok (fst (DOMContentLoaded (globals page0 stored_one)))
   \<and> ledger_ok demo_start
   \<and> length (invoiceHistory (run plain_platform [(tick, AddItem widget), (tick, GeneratePDF)] demo_start)) \<le> 50
   \<and> invoiceHistory demo_start = [] \<and> length (map numbered [1001..<1052]) = 51
   \<and> length (invoiceHistory (foldl (\<lambda>s r. saveToHistory r s) demo_start (map numbered [1001..<1052]))) = 50
   \<and> hd (invoiceHistory (foldl (\<lambda>s r. saveToHistory r s) demo_start (map numbered [1001..<1052]))) = numbered 1051
   \<and> invoiceHistory (foldl (\<lambda>s r. saveToHistory r s) demo_start (map numbered [1001..<1052]))
        = rev (map numbered [1002..<1052])"
proof -
  have h0: "invoiceHistory demo_start = []" by (simp add: demo_start_def globals_def)
  have l0: "ledger_ok demo_start"
    by (simp add: ledger_ok_def stored_ok_def demo_start_def globals_def empty_storage_def)
  have st: "stored_ok stored_one" by (simp add: stored_ok_def stored_one_def)
  have l51: "length (map numbered [1001..<1052]) = 51" by simp
  have tl: "tl (map numbered [1001..<1052]) = map numbered [1002..<1052]"
    by (simp add: map_tl)
  have la: "last (map numbered [1001..<1052]) = numbered 1051"
    by (simp add: last_map)
  note inst = history_bounded [of "numbered 1001" demo_start stored_one page0 plain_platform
      "[(tick, AddItem widget), (tick, GeneratePDF)]" "map numbered [1001..<1052]"]
  from inst l0 have a: "length (invoiceHistory (run plain_platform [(tick, AddItem widget), (tick, GeneratePDF)] demo_start)) \<le> 50"
    by blast
  from inst st have b: "ledger_ok (fst (DOMContentLoaded (globals page0 stored_one)))"
    by blast
  from inst h0 l51 have c: "invoiceHistory (foldl (\<lambda>s r. saveToHistory r s) demo_start (map numbered [1001..<1052])) = rev (tl (map numbered [1001..<1052]))"
    and d: "length (invoiceHistory (foldl (\<lambda>s r. saveToHistory r s) demo_start (map numbered [1001..<1052]))) = 50"
    and e: "hd (invoiceHistory (foldl (\<lambda>s r. saveToHistory r s) demo_start (map numbered [1001..<1052]))) = last (map numbered [1001..<1052])"
    by blast+
  from st b l0 a h0 l51 d e c show ?thesis unfolding tl la by (intro conjI)
qed

section \<open>Claim C5: the invoice counter\<close>

text \<open>
  Claim C5, as stated: no sequence of operations ever lowers the counter or sets it to a
  value used before. \<^verbatim>\<open>regenerateInvoice\<close> does both: after one invoice the counter is
  1002, regenerating that invoice sets it back to 1001, and generating again stores a
  second record numbered 1001.
\<close>

theorem regenerate_lowers_counter:
  "invoiceNumber (run plain_platform [(tick, AddItem widget), (tick, GeneratePDF)] demo_start) = 1002
   \<and> invoiceNumber (run plain_platform
        [(tick, AddItem widget), (tick, GeneratePDF), (tock, RegenerateInvoice 0)] demo_start) = 1001
   \<and> map rec_invoiceNumber (invoiceHistory (run plain_platform
        [(tick, AddItem widget), (tick, GeneratePDF), (tock, RegenerateInvoice 0), (tock, GeneratePDF)]
        demo_start)) = [1001, 1001]"
proof -
  show ?thesis
    by (simp add: addItem_frame generatePDF_frame regenerateInvoice_frame finalized_fields
        demo_start_fields)
qed

text \<open>
  Claim C5, amended. The counter starts at 1001, or at the persisted value when there is
  one; each \<^verbatim>\<open>generatePDF\<close> increments it by exactly 1; along every sequence of events
  without a regenerate it equals the start value plus the number of invoices generated,
  so it never decreases there. \<^verbatim>\<open>regenerateInvoice(index)\<close> overwrites it with the invoice
  number of the record at \<open>index\<close>, which can be lower and already used.
\<close>

theorem counter_without_regenerate:
  "invoiceNumber (globals d st) = 1001
   \<and> invoiceNumber (fst (DOMContentLoaded (globals d st)))
        = (case ls_invoiceNumber st of None \<Rightarrow> 1001 | Some n \<Rightarrow> n)
   \<and> invoiceNumber (fst (generatePDF pf clk s)) = invoiceNumber s + 1
   \<and> ((\<forall>x \<in> set as. \<forall>i. snd x \<noteq> RegenerateInvoice i) \<longrightarrow>
        invoiceNumber (run pf as s)
          = invoiceNumber s + int (length (filter (\<lambda>x. snd x = GeneratePDF) as)))
   \<and> (index < length (invoiceHistory s) \<longrightarrow>
        invoiceNumber (fst (regenerateInvoice pf clk index s))
          = rec_invoiceNumber (invoiceHistory s ! index))"
proof (intro conjI impI)
  show "invoiceNumber (globals d st) = 1001" by (simp add: globals_def)
  show "invoiceNumber (fst (DOMContentLoaded (globals d st)))
        = (case ls_invoiceNumber st of None \<Rightarrow> 1001 | Some n \<Rightarrow> n)"
    by (rule DOMContentLoaded_invoiceNumber)
  show "invoiceNumber (fst (generatePDF pf clk s)) = invoiceNumber s + 1"
    by (rule generatePDF_frame)
next
  assume "\<forall>x \<in> set as. \<forall>i. snd x \<noteq> RegenerateInvoice i"
  then show "invoiceNumber (run pf as s)
          = invoiceNumber s + int (length (filter (\<lambda>x. snd x = GeneratePDF) as))"
    by (rule run_invoiceNumber)
next
  assume "index < length (invoiceHistory s)"
  then show "invoiceNumber (fst (regenerateInvoice pf clk index s))
          = rec_invoiceNumber (invoiceHistory s ! index)"
    by (rule regenerateInvoice_frame)
qed

text \<open>
  The amended statement at a storage that holds the counter 1002, at a session with two
  generated invoices and a removal between them, and at the regeneration of the one
  record of \<open>sold\<close>.
\<close>

theorem counter_without_regenerate_witness:
  "invoiceNumber (globals page0 stored_one) = 1001
   \<and> invoiceNumber (fst (DOMContentLoaded (globals page0 stored_one))) = 1002
   \<and> invoiceNumber (run plain_platform
        [(tick, AddItem widget), (tick, GeneratePDF), (tock, RemoveItem 5), (tock, GeneratePDF)]
        demo_start) = 1003
   \<and> 0 < length (invoiceHistory sold)
   \<and> invoiceNumber (fst (regenerateInvoice plain_platform tock 0 sold)) = 1001"
proof -
  let ?as = "[(tick, AddItem widget), (tick, GeneratePDF), (tock, RemoveItem 5), (tock, GeneratePDF)]"
  have nr: "\<forall>x \<in> set ?as. \<forall>i. snd x \<noteq> RegenerateInvoice i" by simp
  have cnt: "int (length (filter (\<lambda>x. snd x = GeneratePDF) ?as)) = 2" by simp
  have len: "length (invoiceHistory sold) = 1"
    using sold_state(2) by (metis length_map length_Cons list.size(3) One_nat_def)
  then have ix: "0 < length (invoiceHistory sold)" by simp
  have "rec_invoiceNumber (invoiceHistory sold ! 0) = 1001"
    by (simp add: sold_def generatePDF_frame addItem_frame finalized_fields demo_start_fields)
  note inst1 = counter_without_regenerate [of page0 stored_one plain_platform tick demo_start ?as 0]
  note inst2 = counter_without_regenerate [of page0 stored_one plain_platform tock sold "[]" 0]
  from inst1 have a: "invoiceNumber (globals page0 stored_one) = 1001"
    and b: "invoiceNumber (fst (DOMContentLoaded (globals page0 stored_one)))
        = (case ls_invoiceNumber stored_one of None \<Rightarrow> 1001 | Some n \<Rightarrow> n)"
    by blast+
  from b have b': "invoiceNumber (fst (DOMContentLoaded (globals page0 stored_one))) = 1002"
    by (simp add: stored_one_def)
  from inst1 nr have "invoiceNumber (run plain_platform ?as demo_start)
      = invoiceNumber demo_start + int (length (filter (\<lambda>x. snd x = GeneratePDF) ?as))"
    by blast
  then have c: "invoiceNumber (run plain_platform ?as demo_start) = 1003"
    unfolding cnt by (simp add: demo_start_fields)
  from inst2 ix have "invoiceNumber (fst (regenerateInvoice plain_platform tock 0 sold))
          = rec_invoiceNumber (invoiceHistory sold ! 0)"
    by blast
  with \<open>rec_invoiceNumber (invoiceHistory sold ! 0) = 1001\<close>
  have d: "invoiceNumber (fst (regenerateInvoice plain_platform tock 0 sold)) = 1001" by simp
  from a b' c ix d show ?thesis by (intro conjI)
qed

section \<open>Claim C6: what the fingerprint depends on\<close>

text \<open>
  Claim C6. The fingerprint depends on the content of the invoice and on the timestamp
  only. Two invoices that differ only in the ids of their items, hashed at the same
  timestamp, give the same text to the digest, and the same block. One invoice hashed
  at two different timestamps gives two different texts, and two different fingerprints.
  \<^verbatim>\<open>JSON.stringify\<close> and the SHA-256 digest are inputs of the model, so the second half
  is stated for a serialisation that keeps the two blocks apart and a digest for which
  the two byte sequences are not a collision; the encoding into bytes and the
  hexadecimal rendering with \<^verbatim>\<open>padStart\<close> are the script's and are shown injective.
\<close>

theorem fingerprint_content_and_time:
  "(in_invoiceNumber a = in_invoiceNumber b \<and> in_clientName a = in_clientName b
      \<and> in_total a = in_total b \<and> differ_only_in_ids (in_items a) (in_items b) \<longrightarrow>
        hashed_text pf (iso clk) a = hashed_text pf (iso clk) b
        \<and> generateBlockchainData pf clk a = generateBlockchainData pf clk b)
   \<and> (iso clk1 \<noteq> iso clk2 \<and> subtle_digest pf = Some digest
        \<and> separates (JSON_stringify pf) (blockDataOf (iso clk1) a) (blockDataOf (iso clk2) a)
        \<and> separates digest (hashed_bytes pf (iso clk1) a) (hashed_bytes pf (iso clk2) a) \<longrightarrow>
        hashed_text pf (iso clk1) a \<noteq> hashed_text pf (iso clk2) a
        \<and> (\<exists>b1 b2. generateBlockchainData pf clk1 a = Inr b1
              \<and> generateBlockchainData pf clk2 a = Inr b2 \<and> hash b1 \<noteq> hash b2))"
proof (intro conjI impI)
  assume h: "in_invoiceNumber a = in_invoiceNumber b \<and> in_clientName a = in_clientName b
      \<and> in_total a = in_total b \<and> differ_only_in_ids (in_items a) (in_items b)"
  then have e: "blockDataOf (iso clk) a = blockDataOf (iso clk) b"
    by (simp add: blockDataOf_ids)
  then show "hashed_text pf (iso clk) a = hashed_text pf (iso clk) b"
    by (simp add: hashed_text_def)
  from e show "generateBlockchainData pf clk a = generateBlockchainData pf clk b"
    by (simp only: generateBlockchainData_def Let_def)
next
  assume h: "iso clk1 \<noteq> iso clk2 \<and> subtle_digest pf = Some digest
        \<and> separates (JSON_stringify pf) (blockDataOf (iso clk1) a) (blockDataOf (iso clk2) a)
        \<and> separates digest (hashed_bytes pf (iso clk1) a) (hashed_bytes pf (iso clk2) a)"
  have "blockDataOf (iso clk1) a \<noteq> blockDataOf (iso clk2) a"
    using h by (metis blockDataOf_timestamp)
  with h show t: "hashed_text pf (iso clk1) a \<noteq> hashed_text pf (iso clk2) a"
    by (auto simp add: separates_def hashed_text_def)
  then have "hashed_bytes pf (iso clk1) a \<noteq> hashed_bytes pf (iso clk2) a"
    unfolding hashed_bytes_def using encode_inj by blast
  with h have d: "digest (hashed_bytes pf (iso clk1) a) \<noteq> digest (hashed_bytes pf (iso clk2) a)"
    by (auto simp add: separates_def)
  let ?hex = "\<lambda>bs. concat (map (\<lambda>b. padStart 2 (CHR ''0'') (toString16 (unat b))) bs)"
  from d have x: "?hex (digest (hashed_bytes pf (iso clk1) a)) \<noteq> ?hex (digest (hashed_bytes pf (iso clk2) a))"
    using hashHex_inj by blast
  from h have g1: "generateBlockchainData pf clk1 a =
      Inr \<lparr>hash = ?hex (digest (hashed_bytes pf (iso clk1) a)), timestamp = iso clk1,
           data = blockDataOf (iso clk1) a\<rparr>"
    by (simp add: generateBlockchainData_hash)
  from h have g2: "generateBlockchainData pf clk2 a =
      Inr \<lparr>hash = ?hex (digest (hashed_bytes pf (iso clk2) a)), timestamp = iso clk2,
           data = blockDataOf (iso clk2) a\<rparr>"
    by (simp add: generateBlockchainData_hash)
  from g1 g2 x show "\<exists>b1 b2. generateBlockchainData pf clk1 a = Inr b1
              \<and> generateBlockchainData pf clk2 a = Inr b2 \<and> hash b1 \<noteq> hash b2"
    by simp
qed

text \<open>
  The theorem at the invoice \<open>quoted\<close> and its copy with other ids, at the clock readings
  \<open>tick\<close> and \<open>tock\<close>, on \<open>plain_platform\<close>.
\<close>

theorem fingerprint_content_and_time_witness:
  "differ_only_in_ids (in_items quoted) (in_items requoted)
   \<and> in_items quoted \<noteq> in_items requoted
   \<and> hashed_text plain_platform (iso tick) quoted = hashed_text plain_platform (iso tick) requoted
   \<and> generateBlockchainData plain_platform tick quoted
        = generateBlockchainData plain_platform tick requoted
   \<and> iso tick \<noteq> iso tock
   \<and> hashed_text plain_platform (iso tick) quoted \<noteq> hashed_text plain_platform (iso tock) quoted
   \<and> (\<exists>b1 b2. generateBlockchainData plain_platform tick quoted = Inr b1
              \<and> generateBlockchainData plain_platform tock quoted = Inr b2 \<and> hash b1 \<noteq> hash b2)"
proof -
  have same: "in_invoiceNumber quoted = in_invoiceNumber requoted \<and> in_clientName quoted = in_clientName requoted
      \<and> in_total quoted = in_total requoted \<and> differ_only_in_ids (in_items quoted) (in_items requoted)"
    by (simp add: quoted_def requoted_def differ_only_in_ids_def two_lines_def)
  have ne: "in_items quoted \<noteq> in_items requoted"
    by (simp add: quoted_def requoted_def two_lines_def)
  have ts: "iso tick \<noteq> iso tock" by (simp add: tick_def tock_def)
  have dg: "subtle_digest plain_platform = Some (\<lambda>bytes. bytes)" by (simp add: plain_platform_def)
  have s1: "separates (JSON_stringify plain_platform) (blockDataOf (iso tick) quoted) (blockDataOf (iso tock) quoted)"
    by (simp add: separates_def plain_platform_def blockDataOf_def tick_def tock_def)
  have s2: "separates (\<lambda>bytes. bytes) (hashed_bytes plain_platform (iso tick) quoted) (hashed_bytes plain_platform (iso tock) quoted)"
    by (simp add: separates_def)
  note inst = fingerprint_content_and_time [of quoted requoted plain_platform tick tick tock "\<lambda>bytes. bytes"]
  from inst same have a: "hashed_text plain_platform (iso tick) quoted = hashed_text plain_platform (iso tick) requoted"
    and b: "generateBlockchainData plain_platform tick quoted = generateBlockchainData plain_platform tick requoted"
    by blast+
  from inst ts dg s1 s2 have c: "hashed_text plain_platform (iso tick) quoted \<noteq> hashed_text plain_platform (iso tock) quoted"
    and d: "\<exists>b1 b2. generateBlockchainData plain_platform tick quoted = Inr b1
              \<and> generateBlockchainData plain_platform tock quoted = Inr b2 \<and> hash b1 \<noteq> hash b2"
    by blast+
  from same ne a b ts c d show ?thesis by (intro conjI) blast+
qed

section \<open>Claim C7: the items of a history record and the live list\<close>

text \<open>
  Claim C7. The items of a history record are copies, so adding to or removing from the
  live list leaves them unchanged, also after \<^verbatim>\<open>regenerateInvoice\<close>. \<^verbatim>\<open>generatePDF\<close> stores
  a copy (\<^verbatim>\<open>JSON.parse(JSON.stringify(items))\<close>), but \<^verbatim>\<open>regenerateInvoice\<close> assigns
  \<^verbatim>\<open>items = invoice.items\<close>, the record's own array. In the session \<open>sold\<close> the one record
  holds the widget; in \<open>reopened\<close> the live list is that record's array; in \<open>extended\<close>,
  after one \<^verbatim>\<open>addItem\<close>, the record holds the widget and the gadget.
\<close>

theorem regenerated_items_are_shared:
  "map (\<lambda>r. heap sold (rec_items r)) (invoiceHistory sold)
     = [[\<lparr>name = ''Widget'', quantity = 2, price = 10, item_id = 1700000000000\<rparr>]]
   \<and> map rec_items (invoiceHistory reopened) = [items reopened]
   \<and> map (\<lambda>r. heap extended (rec_items r)) (invoiceHistory extended)
     = [[\<lparr>name = ''Widget'', quantity = 2, price = 10, item_id = 1700000000000\<rparr>,
         \<lparr>name = ''Gadget'', quantity = 3, price = 0.5, item_id = 1700000060000\<rparr>]]"
proof -
  have m: "\<And>h. map (\<lambda>r. h (rec_items r)) (invoiceHistory sold) = map h (map rec_items (invoiceHistory sold))"
    by simp
  have t: "now tick = 1700000000000" "now tock = 1700000060000" by (simp_all add: tick_def tock_def)
  show ?thesis
    unfolding extended_state reopened_state m sold_state t by simp
qed

section \<open>Claim C8: a currency outside the configured set\<close>

text \<open>
  Claim C8, as stated: for a currency code outside \<open>{USD, EUR, BOB}\<close> the totals
  computation fails with an error. It does not: at the code \<^verbatim>\<open>XYZ\<close>, with the two
  example lines, \<^verbatim>\<open>calculateTotals\<close> returns a totals object like any other, whose
  \<^verbatim>\<open>convertedTotal\<close> is \<^verbatim>\<open>NaN\<close>.
\<close>

theorem unknown_currency_returns_totals:
  "fst (calculateTotals (priced ''XYZ'' two_lines)) =
     \<lparr>subtotal = Finite 21.5, tax = Finite (1573445119812567 / 2 ^ 49),
      total = Finite (1709608639796347 / 2 ^ 46),
      convertedTotal = NotANumber, currency = ''XYZ'', taxRate = 13\<rparr>"
proof -
  have "exchangeRates ''XYZ'' = None" by (simp add: exchangeRates_unknown)
  then have c: "convertedTotal (fst (calculateTotals (priced ''XYZ'' two_lines))) = NotANumber"
    by (simp add: totals_fields(6) priced_simps)
  have k: "currency (fst (calculateTotals (priced ''XYZ'' two_lines))) = ''XYZ''"
    by (simp add: totals_fields(5) priced_simps)
  show ?thesis
    by (rule totals.equality) (simp_all add: c k two_lines_totals)
qed

text \<open>
  Claim C8, amended. \<^verbatim>\<open>calculateTotals\<close> never fails. For a currency code outside the
  configured set it returns totals whose \<open>convertedTotal\<close> is \<^verbatim>\<open>NaN\<close>, with subtotal, tax
  and total computed as for any other code; for a code of the set \<open>convertedTotal\<close> is
  \<open>total * rate\<close>, the product taken in doubles, which is a number whenever the total
  is one.
\<close>

theorem convertedTotal_by_currency:
  "(currencyField (dom s) \<notin> {''USD'', ''EUR'', ''BOB''} \<longrightarrow>
      convertedTotal (fst (calculateTotals s)) = NotANumber
      \<and> subtotal (fst (calculateTotals s))
           = foldl (\<lambda>sum item. fadd sum (fmul (Finite (quantity item)) (Finite (price item))))
               (Finite 0) (heap s (items s))
      \<and> tax (fst (calculateTotals s))
           = fmul (subtotal (fst (calculateTotals s))) (Finite (getTaxRate s))
      \<and> total (fst (calculateTotals s))
           = fadd (subtotal (fst (calculateTotals s))) (tax (fst (calculateTotals s))))
   \<and> (currencyField (dom s) \<in> {''USD'', ''EUR'', ''BOB''} \<longrightarrow>
      (\<exists>rate. exchangeRates (currencyField (dom s)) = Some rate
         \<and> convertedTotal (fst (calculateTotals s))
              = fmul (total (fst (calculateTotals s))) (Finite rate))
      \<and> (total (fst (calculateTotals s)) \<noteq> NotANumber \<longrightarrow>
           convertedTotal (fst (calculateTotals s)) \<noteq> NotANumber))"
proof (intro conjI impI)
  assume "currencyField (dom s) \<notin> {''USD'', ''EUR'', ''BOB''}"
  then have "exchangeRates (currencyField (dom s)) = None"
    by (rule exchangeRates_unknown)
  then show "convertedTotal (fst (calculateTotals s)) = NotANumber"
    by (simp add: totals_fields(6))
next
  show "subtotal (fst (calculateTotals s))
      = foldl (\<lambda>sum item. fadd sum (fmul (Finite (quantity item)) (Finite (price item))))
          (Finite 0) (heap s (items s))"
    by (rule totals_fields)
next
  show "tax (fst (calculateTotals s))
      = fmul (subtotal (fst (calculateTotals s))) (Finite (getTaxRate s))"
    by (rule totals_fields)
next
  show "total (fst (calculateTotals s))
      = fadd (subtotal (fst (calculateTotals s))) (tax (fst (calculateTotals s)))"
    by (rule totals_fields)
next
  assume "currencyField (dom s) \<in> {''USD'', ''EUR'', ''BOB''}"
  then obtain rate where r: "exchangeRates (currencyField (dom s)) = Some rate"
    using exchangeRates_configured by blast
  then have "convertedTotal (fst (calculateTotals s))
      = fmul (total (fst (calculateTotals s))) (Finite rate)"
    by (simp add: totals_fields(6))
  with r show "\<exists>rate. exchangeRates (currencyField (dom s)) = Some rate
         \<and> convertedTotal (fst (calculateTotals s))
              = fmul (total (fst (calculateTotals s))) (Finite rate)"
    by blast
next
  assume "currencyField (dom s) \<in> {''USD'', ''EUR'', ''BOB''}"
    and t: "total (fst (calculateTotals s)) \<noteq> NotANumber"
  then obtain rate where r: "exchangeRates (currencyField (dom s)) = Some rate" "rate \<noteq> 0"
    using exchangeRates_configured by blast
  then have "convertedTotal (fst (calculateTotals s))
      = fmul (total (fst (calculateTotals s))) (Finite rate)"
    by (simp add: totals_fields(6))
  with t r(2) show "convertedTotal (fst (calculateTotals s)) \<noteq> NotANumber"
    by (simp add: fmul_not_NaN)
qed

text \<open>The amended statement at the code \<^verbatim>\<open>XYZ\<close> and at the code \<^verbatim>\<open>BOB\<close>.\<close>

theorem convertedTotal_by_currency_witness:
  "currencyField (dom (priced ''XYZ'' two_lines)) \<notin> {''USD'', ''EUR'', ''BOB''}
   \<and> convertedTotal (fst (calculateTotals (priced ''XYZ'' two_lines))) = NotANumber
   \<and> subtotal (fst (calculateTotals (priced ''XYZ'' two_lines))) = Finite 21.5
   \<and> currencyField (dom (priced ''BOB'' two_lines)) \<in> {''USD'', ''EUR'', ''BOB''}
   \<and> total (fst (calculateTotals (priced ''BOB'' two_lines))) \<noteq> NotANumber
   \<and> convertedTotal (fst (calculateTotals (priced ''BOB'' two_lines))) \<noteq> NotANumber
   \<and> (\<exists>rate. exchangeRates ''BOB'' = Some rate
        \<and> convertedTotal (fst (calculateTotals (priced ''BOB'' two_lines)))
            = fmul (total (fst (calculateTotals (priced ''BOB'' two_lines)))) (Finite rate))"
proof -
  have x: "currencyField (dom (priced ''XYZ'' two_lines)) \<notin> {''USD'', ''EUR'', ''BOB''}"
    by (simp add: priced_simps)
  have b: "currencyField (dom (priced ''BOB'' two_lines)) \<in> {''USD'', ''EUR'', ''BOB''}"
    by (simp add: priced_simps)
  have t: "total (fst (calculateTotals (priced ''BOB'' two_lines))) \<noteq> NotANumber"
    by (simp add: two_lines_totals)
  have s: "foldl (\<lambda>sum item. fadd sum (fmul (Finite (quantity item)) (Finite (price item))))
             (Finite 0)
             (heap (priced ''XYZ'' two_lines) (items (priced ''XYZ'' two_lines))) = Finite 21.5"
    using two_lines_totals(1) [of "''XYZ''"] by (simp only: totals_fields(1)) simp
  from convertedTotal_by_currency [of "priced ''XYZ'' two_lines"] x
  have "convertedTotal (fst (calculateTotals (priced ''XYZ'' two_lines))) = NotANumber"
    and "subtotal (fst (calculateTotals (priced ''XYZ'' two_lines))) =
      foldl (\<lambda>sum item. fadd sum (fmul (Finite (quantity item)) (Finite (price item))))
             (Finite 0)
             (heap (priced ''XYZ'' two_lines) (items (priced ''XYZ'' two_lines)))"
    by blast+
  moreover from convertedTotal_by_currency [of "priced ''BOB'' two_lines"] b t
  have "\<exists>rate. exchangeRates (currencyField (dom (priced ''BOB'' two_lines))) = Some rate
        \<and> convertedTotal (fst (calculateTotals (priced ''BOB'' two_lines)))
            = fmul (total (fst (calculateTotals (priced ''BOB'' two_lines)))) (Finite rate)"
    and "convertedTotal (fst (calculateTotals (priced ''BOB'' two_lines))) \<noteq> NotANumber"
    by blast+
  ultimately show ?thesis using x b t s by (simp only: priced_simps simp_thms)
qed

section \<open>Claim C9: a persisted history that does not parse\<close>

text \<open>
  Claim C9, as stated: a persisted history whose bytes fail to deserialize is recovered
  from, the load neither crashing nor aborting the initialisation. There is no handler
  around \<^verbatim>\<open>JSON.parse\<close>: at a history text that is cut off, its \<^verbatim>\<open>SyntaxError\<close> escapes the
  \<^verbatim>\<open>DOMContentLoaded\<close> listener.
\<close>

theorem corrupt_history_throws:
  "snd (DOMContentLoaded (globals page0 corrupt_storage)) = Some SyntaxError"
  by (simp add: DOMContentLoaded_def corrupt_storage_def globals_def)

text \<open>
  Claim C9, amended. For every persisted history text that \<^verbatim>\<open>JSON.parse\<close> rejects, the
  load does not recover: unless the text is empty (then the load is skipped), the
  \<^verbatim>\<open>SyntaxError\<close> escapes the listener. The load is the listener's last statement and
  \<^verbatim>\<open>invoiceHistory\<close> was initialised to \<^verbatim>\<open>[]\<close>, so the history is empty afterwards, the
  counter has been restored, and the state is the one that a start with no persisted
  history reaches.
\<close>

theorem corrupt_history_load:
  assumes "ls_invoiceHistory st = Some (Garbage b)"
  shows "snd (DOMContentLoaded (globals d st)) = (if b = [] then None else Some SyntaxError)
   \<and> invoiceHistory (fst (DOMContentLoaded (globals d st))) = []
   \<and> invoiceNumber (fst (DOMContentLoaded (globals d st)))
        = (case ls_invoiceNumber st of None \<Rightarrow> 1001 | Some n \<Rightarrow> n)
   \<and> fst (DOMContentLoaded (globals d st))
        = (fst (DOMContentLoaded (globals d (st\<lparr>ls_invoiceHistory := None\<rparr>))))\<lparr>localStorage := st\<rparr>"
  using assms
  by (simp add: DOMContentLoaded_def globals_def split: option.splits)

text \<open>The amended statement at the cut-off text, with a persisted counter of 1005.\<close>

theorem corrupt_history_load_witness:
  "ls_invoiceHistory corrupt_storage = Some (Garbage ''[{invoiceNumber:1001'')
   \<and> snd (DOMContentLoaded (globals page0 corrupt_storage)) = Some SyntaxError
   \<and> invoiceHistory (fst (DOMContentLoaded (globals page0 corrupt_storage))) = []
   \<and> invoiceNumber (fst (DOMContentLoaded (globals page0 corrupt_storage))) = 1005"
proof -
  have h: "ls_invoiceHistory corrupt_storage = Some (Garbage ''[{invoiceNumber:1001'')"
    by (simp add: corrupt_storage_def)
  have n: "ls_invoiceNumber corrupt_storage = Some 1005" by (simp add: corrupt_storage_def)
  from corrupt_history_load [OF h, of page0]
  have a: "snd (DOMContentLoaded (globals page0 corrupt_storage))
        = (if ''[{invoiceNumber:1001'' = [] then None else Some SyntaxError)"
    and b: "invoiceHistory (fst (DOMContentLoaded (globals page0 corrupt_storage))) = []"
    and c: "invoiceNumber (fst (DOMContentLoaded (globals page0 corrupt_storage)))
        = (case ls_invoiceNumber corrupt_storage of None \<Rightarrow> 1001 | Some n \<Rightarrow> n)"
    by blast+
  from a have a': "snd (DOMContentLoaded (globals page0 corrupt_storage)) = Some SyntaxError"
    by simp
  from c have c': "invoiceNumber (fst (DOMContentLoaded (globals page0 corrupt_storage))) = 1005"
    by (simp add: n)
  from h a' b c' show ?thesis by (intro conjI)
qed

section \<open>Claim C10: removing by id\<close>

text \<open>
  Claim C10. \<^verbatim>\<open>removeItem(id)\<close> leaves in the live list exactly the items whose id
  differs from the argument, in their order. An id is the clock's millisecond count at
  the time of \<^verbatim>\<open>addItem\<close>: two items added at the same count carry the same id, and one
  \<^verbatim>\<open>removeItem\<close> of that id takes both out.
\<close>

theorem removeItem_retains_other_ids:
  "heap (fst (removeItem pf clk i s)) (items (fst (removeItem pf clk i s)))
     = filter (\<lambda>item. item_id item \<noteq> i) (heap s (items s))
   \<and> (validateItem f1 \<and> validateItem f2 \<and> now clk1 = now clk2 \<longrightarrow>
        (let added = fst (addItem pf clk2 f2 (fst (addItem pf clk1 f1 s)));
             removed = fst (removeItem pf clk3 (now clk1) added)
         in map item_id (drop (length (heap s (items s))) (heap added (items added)))
              = [now clk1, now clk1]
            \<and> heap removed (items removed)
              = filter (\<lambda>item. item_id item \<noteq> now clk1) (heap s (items s))))"
proof (intro conjI impI)
  show "heap (fst (removeItem pf clk i s)) (items (fst (removeItem pf clk i s)))
     = filter (\<lambda>item. item_id item \<noteq> i) (heap s (items s))"
    by (simp add: removeItem_frame)
next
  assume a: "validateItem f1 \<and> validateItem f2 \<and> now clk1 = now clk2"
  then obtain q1 p1 where f1: "itemQuantity f1 = Num q1" "itemPrice f1 = Num p1"
    using validateItem_Num [of f1] by blast
  from a obtain q2 p2 where f2: "itemQuantity f2 = Num q2" "itemPrice f2 = Num p2"
    using validateItem_Num [of f2] by blast
  let ?i1 = "\<lparr>name = trim (itemName f1), quantity = q1, price = p1, item_id = now clk1\<rparr>"
  let ?i2 = "\<lparr>name = trim (itemName f2), quantity = q2, price = p2, item_id = now clk2\<rparr>"
  let ?s1 = "fst (addItem pf clk1 f1 s)"
  let ?s2 = "fst (addItem pf clk2 f2 ?s1)"
  have h1: "heap ?s1 (items ?s1) = heap s (items s) @ [?i1]"
    using a f1 by (simp add: addItem_heap addItem_frame)
  have "heap ?s2 (items ?s2) = heap ?s1 (items ?s1) @ [?i2]"
    using a f2 by (simp add: addItem_heap [of f2 q2 p2] addItem_frame)
  with h1 have h2: "heap ?s2 (items ?s2) = heap s (items s) @ [?i1, ?i2]" by simp
  from h2 a have ids: "map item_id (drop (length (heap s (items s))) (heap ?s2 (items ?s2))) = [now clk1, now clk1]"
    by simp
  have "heap (fst (removeItem pf clk3 (now clk1) ?s2)) (items (fst (removeItem pf clk3 (now clk1) ?s2)))
      = filter (\<lambda>item. item_id item \<noteq> now clk1) (heap ?s2 (items ?s2))"
    by (simp add: removeItem_frame)
  also have "\<dots> = filter (\<lambda>item. item_id item \<noteq> now clk1) (heap s (items s))"
    using a by (simp add: h2)
  finally show "let added = fst (addItem pf clk2 f2 (fst (addItem pf clk1 f1 s)));
             removed = fst (removeItem pf clk3 (now clk1) added)
         in map item_id (drop (length (heap s (items s))) (heap added (items added)))
              = [now clk1, now clk1]
            \<and> heap removed (items removed)
              = filter (\<lambda>item. item_id item \<noteq> now clk1) (heap s (items s))"
    using ids by (simp add: Let_def)
qed

text \<open>
  The theorem at the two example lines (ids 1 and 2): removing id 1 leaves the second line,
  and two items added at the same clock reading are both removed by one call.
\<close>

theorem removeItem_retains_other_ids_witness:
  "validateItem widget \<and> validateItem gadget \<and> now tick = now tick
   \<and> heap (fst (removeItem plain_platform tock 1 (priced ''USD'' two_lines)))
           (items (fst (removeItem plain_platform tock 1 (priced ''USD'' two_lines))))
        = [\<lparr>name = ''Gadget'', quantity = 3, price = 0.5, item_id = 2\<rparr>]
   \<and> map item_id (drop 2
         (heap (fst (addItem plain_platform tick gadget (fst (addItem plain_platform tick widget (priced ''USD'' two_lines)))))
           (items (fst (addItem plain_platform tick gadget (fst (addItem plain_platform tick widget (priced ''USD'' two_lines))))))))
        = [1700000000000, 1700000000000]
   \<and> heap (fst (removeItem plain_platform tock 1700000000000
               (fst (addItem plain_platform tick gadget (fst (addItem plain_platform tick widget (priced ''USD'' two_lines)))))))
           (items (fst (removeItem plain_platform tock 1700000000000
               (fst (addItem plain_platform tick gadget (fst (addItem plain_platform tick widget (priced ''USD'' two_lines))))))))
        = two_lines"
proof -
  have v: "validateItem widget \<and> validateItem gadget \<and> now tick = now tick"
    by (simp add: validate_examples)
  have n: "now tick = 1700000000000" by (simp add: tick_def)
  have l: "length two_lines = 2" by (simp add: two_lines_def)
  have f1: "filter (\<lambda>item. item_id item \<noteq> 1) two_lines
      = [\<lparr>name = ''Gadget'', quantity = 3, price = 0.5, item_id = 2\<rparr>]"
    by (simp add: two_lines_def)
  have f2: "filter (\<lambda>item. item_id item \<noteq> 1700000000000) two_lines = two_lines"
    by (simp add: two_lines_def)
  note inst = removeItem_retains_other_ids [of plain_platform tock 1 "priced ''USD'' two_lines"
      widget gadget tick tick tock]
  from inst have a: "heap (fst (removeItem plain_platform tock 1 (priced ''USD'' two_lines)))
           (items (fst (removeItem plain_platform tock 1 (priced ''USD'' two_lines))))
        = filter (\<lambda>item. item_id item \<noteq> 1) (heap (priced ''USD'' two_lines) (items (priced ''USD'' two_lines)))"
    by (rule conjunct1)
  from inst v have b: "let added = fst (addItem plain_platform tick gadget (fst (addItem plain_platform tick widget (priced ''USD'' two_lines))));
             removed = fst (removeItem plain_platform tock (now tick) added)
         in map item_id (drop (length (heap (priced ''USD'' two_lines) (items (priced ''USD'' two_lines)))) (heap added (items added)))
              = [now tick, now tick]
            \<and> heap removed (items removed)
              = filter (\<lambda>item. item_id item \<noteq> now tick) (heap (priced ''USD'' two_lines) (items (priced ''USD'' two_lines)))"
    by blast
  from a b v show ?thesis
    unfolding Let_def priced_simps n l f1 f2 by (intro conjI) blast+
qed

end
